theory Spec2Isabelle
  imports Complex_Main "HOL-Library.Word"
begin

section \<open>Event-plane Q-vectors: EventPlaneAnalysis.cpp\<close>

text \<open>
  The macro reads one tree entry at a time into branch variables, applies the event
  selection, loops over the VELO tracks of the entry and, when every sub-event holds
  enough tracks, fills one \<open>Event\<close> object into the output tree.

  Conventions of the embedding:
  \<^item> \<open>Float_t\<close> and \<open>Double_t\<close> values are real numbers, \<open>TMath::Pi()\<close> is \<open>pi\<close>, and
    \<open>cos\<close>, \<open>sin\<close> are the real functions: sums are exact, rounding is not modelled.
    The thresholds 0.5, 1.5, 2.5, 4.0, 6.0 and 100 are binary fractions, so the
    comparisons agree with the machine's on every finite value.
  \<^item> A C array is a function from the index; the branch arrays have capacity
    \<open>maxTracks = 10000\<close> and the reader fills the first \<open>nVeloTracks\<close> slots. Only
    indices below the declared bounds are ever read or written, for every entry with
    at most \<open>maxTracks\<close> tracks; an entry with more overruns the arrays in the source
    and is outside the embedding.
  \<^item> \<open>Int_t\<close> counters are integers: a counter grows by at most two per track, so it
    stays far below \<open>2^31\<close> for every entry that fits the arrays.
  \<^item> \<open>ULong64_t\<close> and \<open>UInt_t\<close> are 64-bit and 32-bit words.
\<close>

subsection \<open>Branch variables and the output object\<close>

text \<open>The branch variables of lines 170-192 that the computation reads.\<close>

record entry =
  GPSTIME :: "64 word"
  EVENTNUMBER :: "64 word"
  PVX :: "nat \<Rightarrow> real"
  PVY :: "nat \<Rightarrow> real"
  PVZ :: "nat \<Rightarrow> real"
  RUNNUMBER :: "32 word"
  VELOTRACK_BIPCHI2 :: "nat \<Rightarrow> real"
  VELOTRACK_ETA :: "nat \<Rightarrow> real"
  VELOTRACK_ISBACKWARD :: "nat \<Rightarrow> real"
  VELOTRACK_PHI :: "nat \<Rightarrow> real"
  nBackTracks :: int
  nPVs :: int
  nVeloClusters :: int
  nVeloTracks :: int
  nEcalClusters :: int
  ECalETot :: int
  nLongTracks :: int
  nVPClusters :: int

text \<open>
  The state of the track loop: the branch variables (the loop flips \<open>VELOTRACK_ETA\<close>
  and \<open>VELOTRACK_PHI\<close> in place) together with the locals of lines 237-245.
\<close>

record loop_state = entry +
  nPrimaryForTracks :: int
  nPrimaryBackTracks :: int
  nPrimaryForTracks_1 :: int
  nPrimaryForTracks_2 :: int
  nPrimaryForTracks_3 :: int
  Qx_back :: "nat \<Rightarrow> real"
  Qy_back :: "nat \<Rightarrow> real"
  Qx_for :: "nat \<Rightarrow> nat \<Rightarrow> real"
  Qy_for :: "nat \<Rightarrow> nat \<Rightarrow> real"
  Qx_back_wEta :: "nat \<Rightarrow> real"
  Qy_back_wEta :: "nat \<Rightarrow> real"
  Qx_for_wEta :: "nat \<Rightarrow> nat \<Rightarrow> real"
  Qy_for_wEta :: "nat \<Rightarrow> nat \<Rightarrow> real"

text \<open>Class \<open>Event\<close> (lines 45-80), the object written to the output tree.\<close>

record Event =
  outGPSTIME :: "64 word"
  outEVENTNUMBER :: "64 word"
  outPVX :: real
  outPVY :: real
  outPVZ :: real
  outRUNNUMBER :: "32 word"
  outnBackTracks :: int
  outnVeloClusters :: int
  outnVeloTracks :: int
  outnEcalClusters :: int
  outECalETot :: int
  outnLongTracks :: int
  outnVPClusters :: int
  outQx_back :: "nat \<Rightarrow> real"
  outQy_back :: "nat \<Rightarrow> real"
  outQx_for :: "nat \<Rightarrow> nat \<Rightarrow> real"
  outQy_for :: "nat \<Rightarrow> nat \<Rightarrow> real"
  outQx_back_wEta :: "nat \<Rightarrow> real"
  outQy_back_wEta :: "nat \<Rightarrow> real"
  outQx_for_wEta :: "nat \<Rightarrow> nat \<Rightarrow> real"
  outQy_for_wEta :: "nat \<Rightarrow> nat \<Rightarrow> real"
  out_Qmulti :: "nat \<Rightarrow> int"

subsection \<open>The track loop\<close>

text \<open>\<open>A[i] += v\<close> and \<open>A[i][j] += v\<close>.\<close>

definition add1 :: "(nat \<Rightarrow> real) \<Rightarrow> nat \<Rightarrow> real \<Rightarrow> (nat \<Rightarrow> real)" where
  "add1 A i v = A(i := A i + v)"

definition add2 :: "(nat \<Rightarrow> nat \<Rightarrow> real) \<Rightarrow> nat \<Rightarrow> nat \<Rightarrow> real \<Rightarrow> (nat \<Rightarrow> nat \<Rightarrow> real)" where
  "add2 A i j v = A(i := (A i)(j := A i j + v))"

text \<open>Lines 237-253: counters and Q-vectors start at zero for every entry.\<close>

definition init_state :: "entry \<Rightarrow> loop_state" where
  "init_state e =
     \<lparr>GPSTIME = GPSTIME e, EVENTNUMBER = EVENTNUMBER e,
      PVX = PVX e, PVY = PVY e, PVZ = PVZ e, RUNNUMBER = RUNNUMBER e,
      VELOTRACK_BIPCHI2 = VELOTRACK_BIPCHI2 e, VELOTRACK_ETA = VELOTRACK_ETA e,
      VELOTRACK_ISBACKWARD = VELOTRACK_ISBACKWARD e, VELOTRACK_PHI = VELOTRACK_PHI e,
      nBackTracks = nBackTracks e, nPVs = nPVs e, nVeloClusters = nVeloClusters e,
      nVeloTracks = nVeloTracks e, nEcalClusters = nEcalClusters e,
      ECalETot = ECalETot e, nLongTracks = nLongTracks e, nVPClusters = nVPClusters e,
      nPrimaryForTracks = 0, nPrimaryBackTracks = 0,
      nPrimaryForTracks_1 = 0, nPrimaryForTracks_2 = 0, nPrimaryForTracks_3 = 0,
      Qx_back = (\<lambda>i. 0), Qy_back = (\<lambda>i. 0),
      Qx_for = (\<lambda>i j. 0), Qy_for = (\<lambda>i j. 0),
      Qx_back_wEta = (\<lambda>i. 0), Qy_back_wEta = (\<lambda>i. 0),
      Qx_for_wEta = (\<lambda>i j. 0), Qy_for_wEta = (\<lambda>i j. 0)\<rparr>"

text \<open>Lines 263-267: a backward track has its eta and phi flipped in the arrays.\<close>

definition flip_backward :: "nat \<Rightarrow> loop_state \<Rightarrow> loop_state" where
  "flip_backward iTrack s =
     (if VELOTRACK_ISBACKWARD s iTrack = 1
      then s\<lparr>VELOTRACK_ETA := (VELOTRACK_ETA s)(iTrack := VELOTRACK_ETA s iTrack * (- 1)),
             VELOTRACK_PHI := (VELOTRACK_PHI s)(iTrack := VELOTRACK_PHI s iTrack + pi)\<rparr>
      else s)"

text \<open>Lines 269-271: the forward and backward tallies by flag.\<close>

definition count_tracks :: "nat \<Rightarrow> loop_state \<Rightarrow> loop_state" where
  "count_tracks iTrack s =
     (let s1 = (if VELOTRACK_ISBACKWARD s iTrack \<noteq> 1
                then s\<lparr>nPrimaryForTracks := nPrimaryForTracks s + 1\<rparr> else s)
      in if VELOTRACK_ISBACKWARD s1 iTrack = 1
         then s1\<lparr>nPrimaryBackTracks := nPrimaryBackTracks s1 + 1\<rparr> else s1)"

text \<open>Lines 279-289: the backward region.\<close>

definition fill_back :: "real \<Rightarrow> real \<Rightarrow> real \<Rightarrow> nat \<Rightarrow> loop_state \<Rightarrow> loop_state" where
  "fill_back w1 w2 wEta1 iTrack s =
     (if VELOTRACK_ETA s iTrack < - 0.5
      then s\<lparr>Qx_back := add1 (add1 (Qx_back s) 0 (w1 * cos (1 * VELOTRACK_PHI s iTrack)))
                           1 (w2 * cos (2 * VELOTRACK_PHI s iTrack)),
             Qy_back := add1 (add1 (Qy_back s) 0 (w1 * sin (1 * VELOTRACK_PHI s iTrack)))
                           1 (w2 * sin (2 * VELOTRACK_PHI s iTrack)),
             Qx_back_wEta := add1 (Qx_back_wEta s) 0 (wEta1 * cos (1 * VELOTRACK_PHI s iTrack)),
             Qy_back_wEta := add1 (Qy_back_wEta s) 0 (wEta1 * sin (1 * VELOTRACK_PHI s iTrack))\<rparr>
      else s)"

text \<open>
  The six Q-vector updates shared by the four forward blocks (lines 293-299, 306-312,
  319-325, 332-338), for the forward slot \<open>j\<close>.
\<close>

definition fill_for :: "nat \<Rightarrow> real \<Rightarrow> real \<Rightarrow> real \<Rightarrow> nat \<Rightarrow> loop_state \<Rightarrow> loop_state" where
  "fill_for j w1 w2 wEta1 iTrack s =
     s\<lparr>Qx_for := add2 (add2 (Qx_for s) 0 j (w1 * cos (1 * VELOTRACK_PHI s iTrack)))
                      1 j (w2 * cos (2 * VELOTRACK_PHI s iTrack)),
       Qy_for := add2 (add2 (Qy_for s) 0 j (w1 * sin (1 * VELOTRACK_PHI s iTrack)))
                      1 j (w2 * sin (2 * VELOTRACK_PHI s iTrack)),
       Qx_for_wEta := add2 (Qx_for_wEta s) 0 j (wEta1 * cos (1 * VELOTRACK_PHI s iTrack)),
       Qy_for_wEta := add2 (Qy_for_wEta s) 0 j (wEta1 * sin (1 * VELOTRACK_PHI s iTrack))\<rparr>"

text \<open>Lines 291-302, 304-315, 317-328: the three forward bins, each with its counter.\<close>

definition fill_bin1 :: "real \<Rightarrow> real \<Rightarrow> real \<Rightarrow> nat \<Rightarrow> loop_state \<Rightarrow> loop_state" where
  "fill_bin1 w1 w2 wEta1 iTrack s =
     (if VELOTRACK_ETA s iTrack > 0.5 \<and> VELOTRACK_ETA s iTrack \<le> 2.5
      then (fill_for 0 w1 w2 wEta1 iTrack s)\<lparr>nPrimaryForTracks_1 := nPrimaryForTracks_1 s + 1\<rparr>
      else s)"

definition fill_bin2 :: "real \<Rightarrow> real \<Rightarrow> real \<Rightarrow> nat \<Rightarrow> loop_state \<Rightarrow> loop_state" where
  "fill_bin2 w1 w2 wEta1 iTrack s =
     (if VELOTRACK_ETA s iTrack > 2.5 \<and> VELOTRACK_ETA s iTrack \<le> 4.0
      then (fill_for 1 w1 w2 wEta1 iTrack s)\<lparr>nPrimaryForTracks_2 := nPrimaryForTracks_2 s + 1\<rparr>
      else s)"

definition fill_bin3 :: "real \<Rightarrow> real \<Rightarrow> real \<Rightarrow> nat \<Rightarrow> loop_state \<Rightarrow> loop_state" where
  "fill_bin3 w1 w2 wEta1 iTrack s =
     (if VELOTRACK_ETA s iTrack > 4.0 \<and> VELOTRACK_ETA s iTrack \<le> 6.0
      then (fill_for 2 w1 w2 wEta1 iTrack s)\<lparr>nPrimaryForTracks_3 := nPrimaryForTracks_3 s + 1\<rparr>
      else s)"

text \<open>Lines 330-341: the inclusive forward slot, which bumps \<open>nPrimaryForTracks\<close> again.\<close>

definition fill_incl :: "real \<Rightarrow> real \<Rightarrow> real \<Rightarrow> nat \<Rightarrow> loop_state \<Rightarrow> loop_state" where
  "fill_incl w1 w2 wEta1 iTrack s =
     (if VELOTRACK_ETA s iTrack > 0.5 \<and> VELOTRACK_ETA s iTrack \<le> 6.0
      then (fill_for 3 w1 w2 wEta1 iTrack s)\<lparr>nPrimaryForTracks := nPrimaryForTracks s + 1\<rparr>
      else s)"

text \<open>Lines 273-341: the weights are read after the flip, then the five blocks run in order.\<close>

definition accumulate :: "nat \<Rightarrow> loop_state \<Rightarrow> loop_state" where
  "accumulate iTrack s =
     (let w1 = 1; w2 = 1; wEta1 = VELOTRACK_ETA s iTrack
      in fill_incl w1 w2 wEta1 iTrack
           (fill_bin3 w1 w2 wEta1 iTrack
             (fill_bin2 w1 w2 wEta1 iTrack
               (fill_bin1 w1 w2 wEta1 iTrack
                 (fill_back w1 w2 wEta1 iTrack s)))))"

text \<open>Lines 258-342, one iteration: the quality cut skips the track before anything else.\<close>

definition track_body :: "nat \<Rightarrow> loop_state \<Rightarrow> loop_state" where
  "track_body iTrack s =
     (if VELOTRACK_BIPCHI2 s iTrack > 1.5 then s
      else accumulate iTrack (count_tracks iTrack (flip_backward iTrack s)))"

text \<open>\<open>for (int iTrack = 0; iTrack < nVeloTracks; iTrack++)\<close>, entered with \<open>iTrack\<close>.\<close>

function track_loop :: "nat \<Rightarrow> int \<Rightarrow> loop_state \<Rightarrow> loop_state" where
  "track_loop iTrack n s =
     (if int iTrack < n then track_loop (Suc iTrack) n (track_body iTrack s) else s)"
  by pat_completeness auto
termination
  by (relation "measure (\<lambda>(iTrack, n, s). nat n - iTrack)") auto

declare track_loop.simps [simp del]

subsection \<open>One entry: selection, loop, multiplicity gate, fill\<close>

text \<open>Lines 231-234: \<open>True\<close> when the entry is skipped by one of the four \<open>continue\<close>s.\<close>

definition event_rejected :: "entry \<Rightarrow> bool" where
  "event_rejected e =
     (if nPVs e \<noteq> 1 then True
      else if nBackTracks e < 10 then True
      else if PVZ e 0 < - 100 \<or> PVZ e 0 > 100 then True
      else if nVeloTracks e < 15 then True
      else False)"

text \<open>Lines 347-351: \<open>True\<close> when one of the five sub-event counters is below five.\<close>

definition multiplicity_rejected :: "loop_state \<Rightarrow> bool" where
  "multiplicity_rejected s =
     (if nPrimaryForTracks s < 5 then True
      else if nPrimaryBackTracks s < 5 then True
      else if nPrimaryForTracks_1 s < 5 then True
      else if nPrimaryForTracks_2 s < 5 then True
      else if nPrimaryForTracks_3 s < 5 then True
      else False)"

text \<open>
  Lines 356-387: every field of the reused \<open>Event\<close> object is overwritten, so the
  object filled into the tree is a function of the current entry alone.
\<close>

definition fill_event :: "loop_state \<Rightarrow> Event" where
  "fill_event s =
     \<lparr>outGPSTIME = GPSTIME s, outEVENTNUMBER = EVENTNUMBER s,
      outPVX = PVX s 0, outPVY = PVY s 0, outPVZ = PVZ s 0,
      outRUNNUMBER = RUNNUMBER s,
      outnBackTracks = nBackTracks s, outnVeloClusters = nVeloClusters s,
      outnVeloTracks = nVeloTracks s, outnEcalClusters = nEcalClusters s,
      outECalETot = ECalETot s, outnLongTracks = nLongTracks s,
      outnVPClusters = nVPClusters s,
      outQx_back = Qx_back s, outQy_back = Qy_back s,
      outQx_for = Qx_for s, outQy_for = Qy_for s,
      outQx_back_wEta = Qx_back_wEta s, outQy_back_wEta = Qy_back_wEta s,
      outQx_for_wEta = Qx_for_wEta s, outQy_for_wEta = Qy_for_wEta s,
      out_Qmulti = (\<lambda>k. 0)(0 := nPrimaryForTracks_1 s, 1 := nPrimaryForTracks_2 s,
                             2 := nPrimaryForTracks_3 s, 3 := nPrimaryBackTracks s)\<rparr>"

text \<open>The state after the track loop of an entry.\<close>

definition after_tracks :: "entry \<Rightarrow> loop_state" where
  "after_tracks e = track_loop 0 (nVeloTracks e) (init_state e)"

text \<open>
  The body of the event loop (lines 226-390): \<open>None\<close> for an entry left by a
  \<open>continue\<close>, otherwise the object handed to \<open>outTree->Fill()\<close>.
\<close>

definition process_entry :: "entry \<Rightarrow> Event option" where
  "process_entry e =
     (if event_rejected e then None
      else let s = after_tracks e
           in if multiplicity_rejected s then None else Some (fill_event s))"

text \<open>The event loop over the entries of one tree, appending to the output tree.\<close>

fun event_loop :: "entry list \<Rightarrow> Event list \<Rightarrow> Event list" where
  "event_loop [] outTree = outTree"
| "event_loop (e # es) outTree =
     event_loop es (case process_entry e of None \<Rightarrow> outTree | Some evt \<Rightarrow> outTree @ [evt])"

section \<open>Matching candidates to event planes: GlobalPolarizationAnalysis_FilePrep.C\<close>

text \<open>
  The macro scans the event-plane tree once to index its entries by
  \<open>(RUNNUMBER, EVENTNUMBER)\<close>, then loops over the Lambda candidates, applies twelve
  cuts with one counter each, and looks the surviving candidates up in the index.
  The embedding covers the run in which every file and tree opens; the early
  \<open>return\<close>s on a missing file, the progress lines and the summary on \<open>std::cout\<close>
  are left out. The \<open>int\<close> counters are 32-bit words. The cut variables are real
  numbers; the literals \<open>0.9999\<close> and \<open>0.1\<close> of the cuts are \<open>double\<close> constants and enter
  with their exact values.
\<close>

subsection \<open>Data\<close>

text \<open>Class \<open>EventPlane\<close> of the header, read through the pointer \<open>ep\<close>.\<close>

record EventPlane =
  ep_EVENTNUMBER :: "64 word"
  ep_RUNNUMBER :: "32 word"
  Psi1Full :: real
  Psi2Full :: real
  PsiBack :: "nat \<Rightarrow> real"
  PsiFor :: "nat \<Rightarrow> real"
  r1 :: real
  r2 :: real

text \<open>
  The branch variables of the candidate tree that the loop reads. Their declarations
  are elided in the source (line 115); the names that also occur in the event tree
  carry the suffix \<open>_cand\<close>.
\<close>

record candidate =
  RUNNUMBER_cand :: "32 word"
  EVENTNUMBER_cand :: "64 word"
  nBackTracks_cand :: int
  nVeloTracks_cand :: int
  nPVs_cand :: int
  PVZ_cand :: "nat \<Rightarrow> real"
  L0_BPVFDCHI2 :: real
  L0_BPVDIRA :: real
  p_BPVIPCHI2 :: real
  pi_BPVIPCHI2 :: real
  p_PT :: real
  pi_PT :: real
  p_GHOSTPROB :: real
  pi_GHOSTPROB :: real

text \<open>The two messages written to \<open>std::cerr\<close> by the loops (lines 72 and 160).\<close>

datatype diagnostic =
  DuplicateEPKey "32 word" "64 word"
| NoEPMatch "32 word" "64 word" int int

type_synonym ep_key = "32 word \<times> 64 word"

text \<open>
  The locals of the macro: the index, the counters of lines 119-124, the set of run
  numbers, the lines sent to \<open>std::cerr\<close>, and the output tree. The objects filled into
  the output tree are never assigned (line 169), so \<open>outTree\<close> records, for each
  \<open>Fill\<close>, the locator of the event-plane entry loaded just before it.
\<close>

record prep_state =
  epIndexMap :: "ep_key \<rightharpoonup> int"
  cerr :: "diagnostic list"
  runNumbersInLambda :: "32 word set"
  noMatch :: "32 word"
  totalLambdas :: "32 word"
  failedCuts :: "32 word"
  saved :: "32 word"
  cut_nBackTracks :: "32 word"
  cut_nVeloTracks :: "32 word"
  cut_nPVs :: "32 word"
  cut_PVZ :: "32 word"
  cut_L0_BPVIPCHI2 :: "32 word"
  cut_L0_BPVFDCHI2 :: "32 word"
  cut_L0_BPVDIRA :: "32 word"
  cut_p_BPVIPCHI2 :: "32 word"
  cut_pi_BPVIPCHI2 :: "32 word"
  cut_p_PT :: "32 word"
  cut_pi_PT :: "32 word"
  cut_p_GHOSTPROB :: "32 word"
  cut_pi_GHOSTPROB :: "32 word"
  outTree :: "int list"

definition init_prep :: prep_state where
  "init_prep =
     \<lparr>epIndexMap = Map.empty, cerr = [], runNumbersInLambda = {},
      noMatch = 0, totalLambdas = 0, failedCuts = 0, saved = 0,
      cut_nBackTracks = 0, cut_nVeloTracks = 0, cut_nPVs = 0, cut_PVZ = 0,
      cut_L0_BPVIPCHI2 = 0, cut_L0_BPVFDCHI2 = 0, cut_L0_BPVDIRA = 0,
      cut_p_BPVIPCHI2 = 0, cut_pi_BPVIPCHI2 = 0, cut_p_PT = 0, cut_pi_PT = 0,
      cut_p_GHOSTPROB = 0, cut_pi_GHOSTPROB = 0, outTree = []\<rparr>"

subsection \<open>Building the index\<close>

text \<open>
  Lines 69-74 for the entry \<open>ep\<close> at position \<open>iEP\<close>. The \<open>std::unordered_map\<close> compares
  keys as pairs, so it is a partial map on the pairs; the hash of lines 33-40 only
  places the keys in buckets.
\<close>

definition index_body :: "EventPlane \<Rightarrow> int \<Rightarrow> prep_state \<Rightarrow> prep_state" where
  "index_body ep iEP s =
     (let key = (ep_RUNNUMBER ep, ep_EVENTNUMBER ep);
          s1 = (if epIndexMap s key \<noteq> None
                then s\<lparr>cerr := cerr s @ [DuplicateEPKey (ep_RUNNUMBER ep) (ep_EVENTNUMBER ep)]\<rparr>
                else s)
      in s1\<lparr>epIndexMap := (epIndexMap s1)(key \<mapsto> iEP)\<rparr>)"

text \<open>\<open>for (Long64_t iEP = 0; iEP < nEP; ++iEP)\<close>, entered with \<open>iEP\<close>.\<close>

function index_loop :: "EventPlane list \<Rightarrow> nat \<Rightarrow> prep_state \<Rightarrow> prep_state" where
  "index_loop EPtree iEP s =
     (if iEP < length EPtree
      then index_loop EPtree (Suc iEP) (index_body (EPtree ! iEP) (int iEP) s)
      else s)"
  by pat_completeness auto
termination
  by (relation "measure (\<lambda>(EPtree, iEP, s). length EPtree - iEP)") auto

declare index_loop.simps [simp del]

subsection \<open>The candidate loop\<close>

text \<open>
  The values of the \<open>double\<close> literals \<open>0.1\<close> (lines 148-149) and \<open>0.9999\<close> (line 143):
  \<open>3602879701896397 / 2^55\<close> and \<open>4503149267407759 / 2^52\<close>, both a little above the
  decimal fraction.
\<close>

definition double_0_1 :: real where
  "double_0_1 = 3602879701896397 / 36028797018963968"

definition double_0_9999 :: real where
  "double_0_9999 = 4503149267407759 / 4503599627370496"

text \<open>\<open>if (failing) { counter++; fail = true; }\<close> on the pair of the state and \<open>fail\<close>.\<close>

definition cut :: "bool \<Rightarrow> (prep_state \<Rightarrow> prep_state) \<Rightarrow> prep_state \<times> bool \<Rightarrow> prep_state \<times> bool" where
  "cut failing bump sf = (if failing then (bump (fst sf), True) else sf)"

text \<open>Lines 137-149: the twelve cuts, in the order of the source.\<close>

definition apply_cuts :: "candidate \<Rightarrow> prep_state \<Rightarrow> prep_state \<times> bool" where
  "apply_cuts c s =
     (let sf = (s, False);
          sf = cut (nBackTracks_cand c < 10)
                 (\<lambda>s. s\<lparr>cut_nBackTracks := cut_nBackTracks s + 1\<rparr>) sf;
          sf = cut (nVeloTracks_cand c < 15)
                 (\<lambda>s. s\<lparr>cut_nVeloTracks := cut_nVeloTracks s + 1\<rparr>) sf;
          sf = cut (nPVs_cand c \<noteq> 1)
                 (\<lambda>s. s\<lparr>cut_nPVs := cut_nPVs s + 1\<rparr>) sf;
          sf = cut (PVZ_cand c 0 < - 100 \<or> PVZ_cand c 0 > 100)
                 (\<lambda>s. s\<lparr>cut_PVZ := cut_PVZ s + 1\<rparr>) sf;
          sf = cut (L0_BPVFDCHI2 c < 130)
                 (\<lambda>s. s\<lparr>cut_L0_BPVFDCHI2 := cut_L0_BPVFDCHI2 s + 1\<rparr>) sf;
          sf = cut (L0_BPVDIRA c < double_0_9999)
                 (\<lambda>s. s\<lparr>cut_L0_BPVDIRA := cut_L0_BPVDIRA s + 1\<rparr>) sf;
          sf = cut (p_BPVIPCHI2 c < 25)
                 (\<lambda>s. s\<lparr>cut_p_BPVIPCHI2 := cut_p_BPVIPCHI2 s + 1\<rparr>) sf;
          sf = cut (pi_BPVIPCHI2 c < 25)
                 (\<lambda>s. s\<lparr>cut_pi_BPVIPCHI2 := cut_pi_BPVIPCHI2 s + 1\<rparr>) sf;
          sf = cut (p_PT c < 500)
                 (\<lambda>s. s\<lparr>cut_p_PT := cut_p_PT s + 1\<rparr>) sf;
          sf = cut (pi_PT c < 200)
                 (\<lambda>s. s\<lparr>cut_pi_PT := cut_pi_PT s + 1\<rparr>) sf;
          sf = cut (p_GHOSTPROB c > double_0_1)
                 (\<lambda>s. s\<lparr>cut_p_GHOSTPROB := cut_p_GHOSTPROB s + 1\<rparr>) sf;
          sf = cut (pi_GHOSTPROB c > double_0_1)
                 (\<lambda>s. s\<lparr>cut_pi_GHOSTPROB := cut_pi_GHOSTPROB s + 1\<rparr>) sf
      in sf)"

text \<open>The value of \<open>fail\<close> at line 151: the disjunction of the twelve conditions.\<close>

definition any_cut_fails :: "candidate \<Rightarrow> bool" where
  "any_cut_fails c =
     (nBackTracks_cand c < 10 \<or> nVeloTracks_cand c < 15 \<or> nPVs_cand c \<noteq> 1 \<or>
      (PVZ_cand c 0 < - 100 \<or> PVZ_cand c 0 > 100) \<or>
      L0_BPVFDCHI2 c < 130 \<or> L0_BPVDIRA c < double_0_9999 \<or>
      p_BPVIPCHI2 c < 25 \<or> pi_BPVIPCHI2 c < 25 \<or>
      p_PT c < 500 \<or> pi_PT c < 200 \<or>
      p_GHOSTPROB c > double_0_1 \<or> pi_GHOSTPROB c > double_0_1)"

text \<open>Lines 130-172, one iteration for the candidate \<open>c\<close>.\<close>

definition candidate_body :: "candidate \<Rightarrow> prep_state \<Rightarrow> prep_state" where
  "candidate_body c s0 =
     (let s1 = s0\<lparr>totalLambdas := totalLambdas s0 + 1,
                  runNumbersInLambda := insert (RUNNUMBER_cand c) (runNumbersInLambda s0)\<rparr>;
          sf = apply_cuts c s1;
          s = fst sf; fail = snd sf
      in if fail then s\<lparr>failedCuts := failedCuts s + 1\<rparr>
         else let key = (RUNNUMBER_cand c, EVENTNUMBER_cand c)
              in case epIndexMap s key of
                   None \<Rightarrow>
                     s\<lparr>cerr := cerr s @ [NoEPMatch (RUNNUMBER_cand c) (EVENTNUMBER_cand c)
                                           (nBackTracks_cand c) (nVeloTracks_cand c)],
                       noMatch := noMatch s + 1\<rparr>
                 | Some iEP \<Rightarrow>
                     s\<lparr>saved := saved s + 1, outTree := outTree s @ [iEP]\<rparr>)"

text \<open>\<open>for (Long64_t i = 0; i < nLambdas; ++i)\<close>, entered with \<open>i\<close>.\<close>

function candidate_loop :: "candidate list \<Rightarrow> nat \<Rightarrow> prep_state \<Rightarrow> prep_state" where
  "candidate_loop tree i s =
     (if i < length tree
      then candidate_loop tree (Suc i) (candidate_body (tree ! i) s)
      else s)"
  by pat_completeness auto
termination
  by (relation "measure (\<lambda>(tree, i, s). length tree - i)") auto

declare candidate_loop.simps [simp del]

text \<open>The macro on an event-plane tree and a candidate tree.\<close>

definition FilePrep :: "EventPlane list \<Rightarrow> candidate list \<Rightarrow> prep_state" where
  "FilePrep EPtree tree = candidate_loop tree 0 (index_loop EPtree 0 init_prep)"

section \<open>Notions used to state the properties\<close>

text \<open>
  The track-level cut of line 261 and the values that lines 264-267 leave in
  \<open>VELOTRACK_ETA[i]\<close> and \<open>VELOTRACK_PHI[i]\<close> for a track that passes it, as functions
  of the arrays before the iteration.
\<close>

definition passes_quality :: "'a entry_scheme \<Rightarrow> nat \<Rightarrow> bool" where
  "passes_quality e i = (\<not> VELOTRACK_BIPCHI2 e i > 1.5)"

definition eta_t :: "'a entry_scheme \<Rightarrow> nat \<Rightarrow> real" where
  "eta_t e i =
     (if VELOTRACK_ISBACKWARD e i = 1 then VELOTRACK_ETA e i * (- 1) else VELOTRACK_ETA e i)"

definition phi_t :: "'a entry_scheme \<Rightarrow> nat \<Rightarrow> real" where
  "phi_t e i =
     (if VELOTRACK_ISBACKWARD e i = 1 then VELOTRACK_PHI e i + pi else VELOTRACK_PHI e i)"

text \<open>
  The condition under which the block of forward slot \<open>j\<close> runs (lines 292, 305, 318
  and 331): slots 0, 1, 2 are the three bins, slot 3 is the inclusive range.
\<close>

definition forward_slot :: "nat \<Rightarrow> real \<Rightarrow> bool" where
  "forward_slot j eta =
     (if j = 0 then eta > 0.5 \<and> eta \<le> 2.5
      else if j = 1 then eta > 2.5 \<and> eta \<le> 4.0
      else if j = 2 then eta > 4.0 \<and> eta \<le> 6.0
      else if j = 3 then eta > 0.5 \<and> eta \<le> 6.0
      else False)"

text \<open>What one iteration reads of the branch arrays: the four values of track \<open>i\<close>.\<close>

definition track_at :: "'a entry_scheme \<Rightarrow> nat \<Rightarrow> real \<times> real \<times> real \<times> real" where
  "track_at e i =
     (VELOTRACK_BIPCHI2 e i, VELOTRACK_ETA e i, VELOTRACK_ISBACKWARD e i, VELOTRACK_PHI e i)"

text \<open>
  A family of concrete entries that differ in \<open>nVeloTracks\<close> only. Tracks 0-4 lie in
  forward bin 1, tracks 5-9 in bin 3, tracks 10-14 are backward, tracks 15-19 lie in
  bin 2; track 20 is backward with \<open>(eta, phi) = (1.0, 0.2)\<close>, track 21 is backward with
  eta 0.2, and track 22 fails the quality cut.
\<close>

definition sample_entry :: "int \<Rightarrow> entry" where
  "sample_entry n =
     \<lparr>GPSTIME = 0, EVENTNUMBER = 42,
      PVX = (\<lambda>k. 0), PVY = (\<lambda>k. 0), PVZ = (\<lambda>k. 0), RUNNUMBER = 274156,
      VELOTRACK_BIPCHI2 = (\<lambda>i. if i = 22 then 2 else 0),
      VELOTRACK_ETA =
        (\<lambda>i. if i < 5 then 1 else if i < 10 then 5 else if i < 15 then 2
             else if i < 20 then 3 else if i = 20 then 1.0 else if i = 21 then 0.2 else 3),
      VELOTRACK_ISBACKWARD = (\<lambda>i. if (10 \<le> i \<and> i < 15) \<or> i = 20 \<or> i = 21 then 1 else 0),
      VELOTRACK_PHI = (\<lambda>i. if i = 20 then 0.2 else 0),
      nBackTracks = 10, nPVs = 1, nVeloClusters = 0, nVeloTracks = n,
      nEcalClusters = 0, ECalETot = 0, nLongTracks = 0, nVPClusters = 0\<rparr>"

text \<open>The composite key of an event-plane entry (line 70) and of a candidate (line 157).\<close>

definition ep_key :: "EventPlane \<Rightarrow> ep_key" where
  "ep_key ep = (ep_RUNNUMBER ep, ep_EVENTNUMBER ep)"

definition cand_key :: "candidate \<Rightarrow> ep_key" where
  "cand_key c = (RUNNUMBER_cand c, EVENTNUMBER_cand c)"

text \<open>
  Concrete inputs: an event-plane entry with a given key and \<open>Psi1Full\<close>, and a
  candidate of run 274156 with a given event number and proton \<open>p_PT\<close> that passes
  every other cut.
\<close>

definition sample_ep :: "32 word \<Rightarrow> 64 word \<Rightarrow> real \<Rightarrow> EventPlane" where
  "sample_ep run ev psi =
     \<lparr>ep_EVENTNUMBER = ev, ep_RUNNUMBER = run, Psi1Full = psi, Psi2Full = 0,
      PsiBack = (\<lambda>k. 0), PsiFor = (\<lambda>k. 0), r1 = 1, r2 = 1\<rparr>"

definition sample_candidate :: "64 word \<Rightarrow> real \<Rightarrow> candidate" where
  "sample_candidate ev pt =
     \<lparr>RUNNUMBER_cand = 274156, EVENTNUMBER_cand = ev,
      nBackTracks_cand = 10, nVeloTracks_cand = 15, nPVs_cand = 1, PVZ_cand = (\<lambda>k. 0),
      L0_BPVFDCHI2 = 130, L0_BPVDIRA = 1, p_BPVIPCHI2 = 25, pi_BPVIPCHI2 = 25,
      p_PT = pt, pi_PT = 200, p_GHOSTPROB = 0, pi_GHOSTPROB = 0\<rparr>"

section \<open>The track loop, block by block\<close>

text \<open>
  Each block of the loop body changes a few fields and leaves the others alone; the
  lemmas below record both, so that a field of \<open>track_body i s\<close> is rewritten without
  unfolding the whole body.
\<close>

lemma flip_backward_frame:
  "VELOTRACK_BIPCHI2 (flip_backward i s) = VELOTRACK_BIPCHI2 s"
  "VELOTRACK_ISBACKWARD (flip_backward i s) = VELOTRACK_ISBACKWARD s"
  "nPrimaryForTracks (flip_backward i s) = nPrimaryForTracks s"
  "nPrimaryBackTracks (flip_backward i s) = nPrimaryBackTracks s"
  "nPrimaryForTracks_1 (flip_backward i s) = nPrimaryForTracks_1 s"
  "nPrimaryForTracks_2 (flip_backward i s) = nPrimaryForTracks_2 s"
  "nPrimaryForTracks_3 (flip_backward i s) = nPrimaryForTracks_3 s"
  "Qx_back (flip_backward i s) = Qx_back s"
  "Qy_back (flip_backward i s) = Qy_back s"
  "Qx_for (flip_backward i s) = Qx_for s"
  "Qy_for (flip_backward i s) = Qy_for s"
  "Qx_back_wEta (flip_backward i s) = Qx_back_wEta s"
  "Qy_back_wEta (flip_backward i s) = Qy_back_wEta s"
  "Qx_for_wEta (flip_backward i s) = Qx_for_wEta s"
  "Qy_for_wEta (flip_backward i s) = Qy_for_wEta s"
  by (simp_all add: flip_backward_def)

lemma count_tracks_frame:
  "VELOTRACK_BIPCHI2 (count_tracks i s) = VELOTRACK_BIPCHI2 s"
  "VELOTRACK_ETA (count_tracks i s) = VELOTRACK_ETA s"
  "VELOTRACK_ISBACKWARD (count_tracks i s) = VELOTRACK_ISBACKWARD s"
  "VELOTRACK_PHI (count_tracks i s) = VELOTRACK_PHI s"
  "nPrimaryForTracks_1 (count_tracks i s) = nPrimaryForTracks_1 s"
  "nPrimaryForTracks_2 (count_tracks i s) = nPrimaryForTracks_2 s"
  "nPrimaryForTracks_3 (count_tracks i s) = nPrimaryForTracks_3 s"
  "Qx_back (count_tracks i s) = Qx_back s"
  "Qy_back (count_tracks i s) = Qy_back s"
  "Qx_for (count_tracks i s) = Qx_for s"
  "Qy_for (count_tracks i s) = Qy_for s"
  "Qx_back_wEta (count_tracks i s) = Qx_back_wEta s"
  "Qy_back_wEta (count_tracks i s) = Qy_back_wEta s"
  "Qx_for_wEta (count_tracks i s) = Qx_for_wEta s"
  "Qy_for_wEta (count_tracks i s) = Qy_for_wEta s"
  by (simp_all add: count_tracks_def Let_def)

lemma fill_back_frame:
  "VELOTRACK_BIPCHI2 (fill_back w1 w2 wEta1 i s) = VELOTRACK_BIPCHI2 s"
  "VELOTRACK_ETA (fill_back w1 w2 wEta1 i s) = VELOTRACK_ETA s"
  "VELOTRACK_ISBACKWARD (fill_back w1 w2 wEta1 i s) = VELOTRACK_ISBACKWARD s"
  "VELOTRACK_PHI (fill_back w1 w2 wEta1 i s) = VELOTRACK_PHI s"
  "nPrimaryForTracks (fill_back w1 w2 wEta1 i s) = nPrimaryForTracks s"
  "nPrimaryBackTracks (fill_back w1 w2 wEta1 i s) = nPrimaryBackTracks s"
  "nPrimaryForTracks_1 (fill_back w1 w2 wEta1 i s) = nPrimaryForTracks_1 s"
  "nPrimaryForTracks_2 (fill_back w1 w2 wEta1 i s) = nPrimaryForTracks_2 s"
  "nPrimaryForTracks_3 (fill_back w1 w2 wEta1 i s) = nPrimaryForTracks_3 s"
  "Qx_for (fill_back w1 w2 wEta1 i s) = Qx_for s"
  "Qy_for (fill_back w1 w2 wEta1 i s) = Qy_for s"
  "Qx_for_wEta (fill_back w1 w2 wEta1 i s) = Qx_for_wEta s"
  "Qy_for_wEta (fill_back w1 w2 wEta1 i s) = Qy_for_wEta s"
  by (simp_all add: fill_back_def)

lemma fill_for_frame:
  "VELOTRACK_BIPCHI2 (fill_for j w1 w2 wEta1 i s) = VELOTRACK_BIPCHI2 s"
  "VELOTRACK_ETA (fill_for j w1 w2 wEta1 i s) = VELOTRACK_ETA s"
  "VELOTRACK_ISBACKWARD (fill_for j w1 w2 wEta1 i s) = VELOTRACK_ISBACKWARD s"
  "VELOTRACK_PHI (fill_for j w1 w2 wEta1 i s) = VELOTRACK_PHI s"
  "nPrimaryForTracks (fill_for j w1 w2 wEta1 i s) = nPrimaryForTracks s"
  "nPrimaryBackTracks (fill_for j w1 w2 wEta1 i s) = nPrimaryBackTracks s"
  "nPrimaryForTracks_1 (fill_for j w1 w2 wEta1 i s) = nPrimaryForTracks_1 s"
  "nPrimaryForTracks_2 (fill_for j w1 w2 wEta1 i s) = nPrimaryForTracks_2 s"
  "nPrimaryForTracks_3 (fill_for j w1 w2 wEta1 i s) = nPrimaryForTracks_3 s"
  "Qx_back (fill_for j w1 w2 wEta1 i s) = Qx_back s"
  "Qy_back (fill_for j w1 w2 wEta1 i s) = Qy_back s"
  "Qx_back_wEta (fill_for j w1 w2 wEta1 i s) = Qx_back_wEta s"
  "Qy_back_wEta (fill_for j w1 w2 wEta1 i s) = Qy_back_wEta s"
  by (simp_all add: fill_for_def)

lemma fill_bin1_frame:
  "VELOTRACK_BIPCHI2 (fill_bin1 w1 w2 wEta1 i s) = VELOTRACK_BIPCHI2 s"
  "VELOTRACK_ETA (fill_bin1 w1 w2 wEta1 i s) = VELOTRACK_ETA s"
  "VELOTRACK_ISBACKWARD (fill_bin1 w1 w2 wEta1 i s) = VELOTRACK_ISBACKWARD s"
  "VELOTRACK_PHI (fill_bin1 w1 w2 wEta1 i s) = VELOTRACK_PHI s"
  "nPrimaryForTracks (fill_bin1 w1 w2 wEta1 i s) = nPrimaryForTracks s"
  "nPrimaryBackTracks (fill_bin1 w1 w2 wEta1 i s) = nPrimaryBackTracks s"
  "nPrimaryForTracks_2 (fill_bin1 w1 w2 wEta1 i s) = nPrimaryForTracks_2 s"
  "nPrimaryForTracks_3 (fill_bin1 w1 w2 wEta1 i s) = nPrimaryForTracks_3 s"
  "Qx_back (fill_bin1 w1 w2 wEta1 i s) = Qx_back s"
  "Qy_back (fill_bin1 w1 w2 wEta1 i s) = Qy_back s"
  "Qx_back_wEta (fill_bin1 w1 w2 wEta1 i s) = Qx_back_wEta s"
  "Qy_back_wEta (fill_bin1 w1 w2 wEta1 i s) = Qy_back_wEta s"
  by (simp_all add: fill_bin1_def fill_for_frame)

lemma fill_bin2_frame:
  "VELOTRACK_BIPCHI2 (fill_bin2 w1 w2 wEta1 i s) = VELOTRACK_BIPCHI2 s"
  "VELOTRACK_ETA (fill_bin2 w1 w2 wEta1 i s) = VELOTRACK_ETA s"
  "VELOTRACK_ISBACKWARD (fill_bin2 w1 w2 wEta1 i s) = VELOTRACK_ISBACKWARD s"
  "VELOTRACK_PHI (fill_bin2 w1 w2 wEta1 i s) = VELOTRACK_PHI s"
  "nPrimaryForTracks (fill_bin2 w1 w2 wEta1 i s) = nPrimaryForTracks s"
  "nPrimaryBackTracks (fill_bin2 w1 w2 wEta1 i s) = nPrimaryBackTracks s"
  "nPrimaryForTracks_1 (fill_bin2 w1 w2 wEta1 i s) = nPrimaryForTracks_1 s"
  "nPrimaryForTracks_3 (fill_bin2 w1 w2 wEta1 i s) = nPrimaryForTracks_3 s"
  "Qx_back (fill_bin2 w1 w2 wEta1 i s) = Qx_back s"
  "Qy_back (fill_bin2 w1 w2 wEta1 i s) = Qy_back s"
  "Qx_back_wEta (fill_bin2 w1 w2 wEta1 i s) = Qx_back_wEta s"
  "Qy_back_wEta (fill_bin2 w1 w2 wEta1 i s) = Qy_back_wEta s"
  by (simp_all add: fill_bin2_def fill_for_frame)

lemma fill_bin3_frame:
  "VELOTRACK_BIPCHI2 (fill_bin3 w1 w2 wEta1 i s) = VELOTRACK_BIPCHI2 s"
  "VELOTRACK_ETA (fill_bin3 w1 w2 wEta1 i s) = VELOTRACK_ETA s"
  "VELOTRACK_ISBACKWARD (fill_bin3 w1 w2 wEta1 i s) = VELOTRACK_ISBACKWARD s"
  "VELOTRACK_PHI (fill_bin3 w1 w2 wEta1 i s) = VELOTRACK_PHI s"
  "nPrimaryForTracks (fill_bin3 w1 w2 wEta1 i s) = nPrimaryForTracks s"
  "nPrimaryBackTracks (fill_bin3 w1 w2 wEta1 i s) = nPrimaryBackTracks s"
  "nPrimaryForTracks_1 (fill_bin3 w1 w2 wEta1 i s) = nPrimaryForTracks_1 s"
  "nPrimaryForTracks_2 (fill_bin3 w1 w2 wEta1 i s) = nPrimaryForTracks_2 s"
  "Qx_back (fill_bin3 w1 w2 wEta1 i s) = Qx_back s"
  "Qy_back (fill_bin3 w1 w2 wEta1 i s) = Qy_back s"
  "Qx_back_wEta (fill_bin3 w1 w2 wEta1 i s) = Qx_back_wEta s"
  "Qy_back_wEta (fill_bin3 w1 w2 wEta1 i s) = Qy_back_wEta s"
  by (simp_all add: fill_bin3_def fill_for_frame)

lemma fill_incl_frame:
  "VELOTRACK_BIPCHI2 (fill_incl w1 w2 wEta1 i s) = VELOTRACK_BIPCHI2 s"
  "VELOTRACK_ETA (fill_incl w1 w2 wEta1 i s) = VELOTRACK_ETA s"
  "VELOTRACK_ISBACKWARD (fill_incl w1 w2 wEta1 i s) = VELOTRACK_ISBACKWARD s"
  "VELOTRACK_PHI (fill_incl w1 w2 wEta1 i s) = VELOTRACK_PHI s"
  "nPrimaryBackTracks (fill_incl w1 w2 wEta1 i s) = nPrimaryBackTracks s"
  "nPrimaryForTracks_1 (fill_incl w1 w2 wEta1 i s) = nPrimaryForTracks_1 s"
  "nPrimaryForTracks_2 (fill_incl w1 w2 wEta1 i s) = nPrimaryForTracks_2 s"
  "nPrimaryForTracks_3 (fill_incl w1 w2 wEta1 i s) = nPrimaryForTracks_3 s"
  "Qx_back (fill_incl w1 w2 wEta1 i s) = Qx_back s"
  "Qy_back (fill_incl w1 w2 wEta1 i s) = Qy_back s"
  "Qx_back_wEta (fill_incl w1 w2 wEta1 i s) = Qx_back_wEta s"
  "Qy_back_wEta (fill_incl w1 w2 wEta1 i s) = Qy_back_wEta s"
  by (simp_all add: fill_incl_def fill_for_frame)

lemma flip_backward_eta:
  "VELOTRACK_ETA (flip_backward i s) j = (if j = i then eta_t s i else VELOTRACK_ETA s j)"
  "VELOTRACK_PHI (flip_backward i s) j = (if j = i then phi_t s i else VELOTRACK_PHI s j)"
  by (simp_all add: flip_backward_def eta_t_def phi_t_def)

lemma count_tracks_counters:
  "nPrimaryForTracks (count_tracks i s) =
     nPrimaryForTracks s + (if VELOTRACK_ISBACKWARD s i \<noteq> 1 then 1 else 0)"
  "nPrimaryBackTracks (count_tracks i s) =
     nPrimaryBackTracks s + (if VELOTRACK_ISBACKWARD s i = 1 then 1 else 0)"
  by (simp_all add: count_tracks_def Let_def)

lemma fill_back_sums:
  "Qx_back (fill_back w1 w2 wEta1 i s) h =
     Qx_back s h + (if VELOTRACK_ETA s i < - 0.5
                    then (if h = 0 then w1 * cos (VELOTRACK_PHI s i)
                          else if h = 1 then w2 * cos (2 * VELOTRACK_PHI s i) else 0)
                    else 0)"
  "Qy_back (fill_back w1 w2 wEta1 i s) h =
     Qy_back s h + (if VELOTRACK_ETA s i < - 0.5
                    then (if h = 0 then w1 * sin (VELOTRACK_PHI s i)
                          else if h = 1 then w2 * sin (2 * VELOTRACK_PHI s i) else 0)
                    else 0)"
  "Qx_back_wEta (fill_back w1 w2 wEta1 i s) h =
     Qx_back_wEta s h + (if VELOTRACK_ETA s i < - 0.5 \<and> h = 0
                         then wEta1 * cos (VELOTRACK_PHI s i) else 0)"
  "Qy_back_wEta (fill_back w1 w2 wEta1 i s) h =
     Qy_back_wEta s h + (if VELOTRACK_ETA s i < - 0.5 \<and> h = 0
                         then wEta1 * sin (VELOTRACK_PHI s i) else 0)"
  by (simp_all add: fill_back_def add1_def)

lemma fill_for_sums:
  "Qx_for (fill_for j w1 w2 wEta1 i s) h k =
     Qx_for s h k + (if k = j
                     then (if h = 0 then w1 * cos (VELOTRACK_PHI s i)
                           else if h = 1 then w2 * cos (2 * VELOTRACK_PHI s i) else 0)
                     else 0)"
  "Qy_for (fill_for j w1 w2 wEta1 i s) h k =
     Qy_for s h k + (if k = j
                     then (if h = 0 then w1 * sin (VELOTRACK_PHI s i)
                           else if h = 1 then w2 * sin (2 * VELOTRACK_PHI s i) else 0)
                     else 0)"
  "Qx_for_wEta (fill_for j w1 w2 wEta1 i s) h k =
     Qx_for_wEta s h k + (if k = j \<and> h = 0 then wEta1 * cos (VELOTRACK_PHI s i) else 0)"
  "Qy_for_wEta (fill_for j w1 w2 wEta1 i s) h k =
     Qy_for_wEta s h k + (if k = j \<and> h = 0 then wEta1 * sin (VELOTRACK_PHI s i) else 0)"
  by (simp_all add: fill_for_def add2_def)

lemma fill_bin1_sums:
  "nPrimaryForTracks_1 (fill_bin1 w1 w2 wEta1 i s) = nPrimaryForTracks_1 s + (if VELOTRACK_ETA s i > 0.5 \<and> VELOTRACK_ETA s i \<le> 2.5 then 1 else 0)"
  "Qx_for (fill_bin1 w1 w2 wEta1 i s) h k =
     Qx_for s h k + (if (VELOTRACK_ETA s i > 0.5 \<and> VELOTRACK_ETA s i \<le> 2.5) \<and> k = 0
                     then (if h = 0 then w1 * cos (VELOTRACK_PHI s i)
                           else if h = 1 then w2 * cos (2 * VELOTRACK_PHI s i) else 0)
                     else 0)"
  "Qy_for (fill_bin1 w1 w2 wEta1 i s) h k =
     Qy_for s h k + (if (VELOTRACK_ETA s i > 0.5 \<and> VELOTRACK_ETA s i \<le> 2.5) \<and> k = 0
                     then (if h = 0 then w1 * sin (VELOTRACK_PHI s i)
                           else if h = 1 then w2 * sin (2 * VELOTRACK_PHI s i) else 0)
                     else 0)"
  "Qx_for_wEta (fill_bin1 w1 w2 wEta1 i s) h k =
     Qx_for_wEta s h k + (if (VELOTRACK_ETA s i > 0.5 \<and> VELOTRACK_ETA s i \<le> 2.5) \<and> k = 0 \<and> h = 0
                          then wEta1 * cos (VELOTRACK_PHI s i) else 0)"
  "Qy_for_wEta (fill_bin1 w1 w2 wEta1 i s) h k =
     Qy_for_wEta s h k + (if (VELOTRACK_ETA s i > 0.5 \<and> VELOTRACK_ETA s i \<le> 2.5) \<and> k = 0 \<and> h = 0
                          then wEta1 * sin (VELOTRACK_PHI s i) else 0)"
  by (simp_all add: fill_bin1_def fill_for_sums fill_for_frame)

lemma fill_bin2_sums:
  "nPrimaryForTracks_2 (fill_bin2 w1 w2 wEta1 i s) = nPrimaryForTracks_2 s + (if VELOTRACK_ETA s i > 2.5 \<and> VELOTRACK_ETA s i \<le> 4.0 then 1 else 0)"
  "Qx_for (fill_bin2 w1 w2 wEta1 i s) h k =
     Qx_for s h k + (if (VELOTRACK_ETA s i > 2.5 \<and> VELOTRACK_ETA s i \<le> 4.0) \<and> k = 1
                     then (if h = 0 then w1 * cos (VELOTRACK_PHI s i)
                           else if h = 1 then w2 * cos (2 * VELOTRACK_PHI s i) else 0)
                     else 0)"
  "Qy_for (fill_bin2 w1 w2 wEta1 i s) h k =
     Qy_for s h k + (if (VELOTRACK_ETA s i > 2.5 \<and> VELOTRACK_ETA s i \<le> 4.0) \<and> k = 1
                     then (if h = 0 then w1 * sin (VELOTRACK_PHI s i)
                           else if h = 1 then w2 * sin (2 * VELOTRACK_PHI s i) else 0)
                     else 0)"
  "Qx_for_wEta (fill_bin2 w1 w2 wEta1 i s) h k =
     Qx_for_wEta s h k + (if (VELOTRACK_ETA s i > 2.5 \<and> VELOTRACK_ETA s i \<le> 4.0) \<and> k = 1 \<and> h = 0
                          then wEta1 * cos (VELOTRACK_PHI s i) else 0)"
  "Qy_for_wEta (fill_bin2 w1 w2 wEta1 i s) h k =
     Qy_for_wEta s h k + (if (VELOTRACK_ETA s i > 2.5 \<and> VELOTRACK_ETA s i \<le> 4.0) \<and> k = 1 \<and> h = 0
                          then wEta1 * sin (VELOTRACK_PHI s i) else 0)"
  by (simp_all add: fill_bin2_def fill_for_sums fill_for_frame)

lemma fill_bin3_sums:
  "nPrimaryForTracks_3 (fill_bin3 w1 w2 wEta1 i s) = nPrimaryForTracks_3 s + (if VELOTRACK_ETA s i > 4.0 \<and> VELOTRACK_ETA s i \<le> 6.0 then 1 else 0)"
  "Qx_for (fill_bin3 w1 w2 wEta1 i s) h k =
     Qx_for s h k + (if (VELOTRACK_ETA s i > 4.0 \<and> VELOTRACK_ETA s i \<le> 6.0) \<and> k = 2
                     then (if h = 0 then w1 * cos (VELOTRACK_PHI s i)
                           else if h = 1 then w2 * cos (2 * VELOTRACK_PHI s i) else 0)
                     else 0)"
  "Qy_for (fill_bin3 w1 w2 wEta1 i s) h k =
     Qy_for s h k + (if (VELOTRACK_ETA s i > 4.0 \<and> VELOTRACK_ETA s i \<le> 6.0) \<and> k = 2
                     then (if h = 0 then w1 * sin (VELOTRACK_PHI s i)
                           else if h = 1 then w2 * sin (2 * VELOTRACK_PHI s i) else 0)
                     else 0)"
  "Qx_for_wEta (fill_bin3 w1 w2 wEta1 i s) h k =
     Qx_for_wEta s h k + (if (VELOTRACK_ETA s i > 4.0 \<and> VELOTRACK_ETA s i \<le> 6.0) \<and> k = 2 \<and> h = 0
                          then wEta1 * cos (VELOTRACK_PHI s i) else 0)"
  "Qy_for_wEta (fill_bin3 w1 w2 wEta1 i s) h k =
     Qy_for_wEta s h k + (if (VELOTRACK_ETA s i > 4.0 \<and> VELOTRACK_ETA s i \<le> 6.0) \<and> k = 2 \<and> h = 0
                          then wEta1 * sin (VELOTRACK_PHI s i) else 0)"
  by (simp_all add: fill_bin3_def fill_for_sums fill_for_frame)

lemma fill_incl_sums:
  "nPrimaryForTracks (fill_incl w1 w2 wEta1 i s) = nPrimaryForTracks s + (if VELOTRACK_ETA s i > 0.5 \<and> VELOTRACK_ETA s i \<le> 6.0 then 1 else 0)"
  "Qx_for (fill_incl w1 w2 wEta1 i s) h k =
     Qx_for s h k + (if (VELOTRACK_ETA s i > 0.5 \<and> VELOTRACK_ETA s i \<le> 6.0) \<and> k = 3
                     then (if h = 0 then w1 * cos (VELOTRACK_PHI s i)
                           else if h = 1 then w2 * cos (2 * VELOTRACK_PHI s i) else 0)
                     else 0)"
  "Qy_for (fill_incl w1 w2 wEta1 i s) h k =
     Qy_for s h k + (if (VELOTRACK_ETA s i > 0.5 \<and> VELOTRACK_ETA s i \<le> 6.0) \<and> k = 3
                     then (if h = 0 then w1 * sin (VELOTRACK_PHI s i)
                           else if h = 1 then w2 * sin (2 * VELOTRACK_PHI s i) else 0)
                     else 0)"
  "Qx_for_wEta (fill_incl w1 w2 wEta1 i s) h k =
     Qx_for_wEta s h k + (if (VELOTRACK_ETA s i > 0.5 \<and> VELOTRACK_ETA s i \<le> 6.0) \<and> k = 3 \<and> h = 0
                          then wEta1 * cos (VELOTRACK_PHI s i) else 0)"
  "Qy_for_wEta (fill_incl w1 w2 wEta1 i s) h k =
     Qy_for_wEta s h k + (if (VELOTRACK_ETA s i > 0.5 \<and> VELOTRACK_ETA s i \<le> 6.0) \<and> k = 3 \<and> h = 0
                          then wEta1 * sin (VELOTRACK_PHI s i) else 0)"
  by (simp_all add: fill_incl_def fill_for_sums fill_for_frame)


lemmas block_frames = flip_backward_frame count_tracks_frame fill_back_frame
  fill_bin1_frame fill_bin2_frame fill_bin3_frame fill_incl_frame

lemmas block_effects = flip_backward_eta count_tracks_counters fill_back_sums
  fill_bin1_sums fill_bin2_sums fill_bin3_sums fill_incl_sums

lemma track_body_frame:
  "VELOTRACK_BIPCHI2 (track_body i s) = VELOTRACK_BIPCHI2 s"
  "VELOTRACK_ISBACKWARD (track_body i s) = VELOTRACK_ISBACKWARD s"
  by (simp_all add: track_body_def accumulate_def Let_def block_frames)

lemma track_body_eta:
  "VELOTRACK_ETA (track_body i s) j =
     (if j = i \<and> passes_quality s i then eta_t s i else VELOTRACK_ETA s j)"
  "VELOTRACK_PHI (track_body i s) j =
     (if j = i \<and> passes_quality s i then phi_t s i else VELOTRACK_PHI s j)"
  by (simp_all add: track_body_def accumulate_def Let_def block_frames block_effects
        passes_quality_def)

lemma track_body_counters:
  "nPrimaryBackTracks (track_body i s) =
     nPrimaryBackTracks s +
     (if passes_quality s i \<and> VELOTRACK_ISBACKWARD s i = 1 then 1 else 0)"
  "nPrimaryForTracks (track_body i s) =
     nPrimaryForTracks s +
     (if passes_quality s i \<and> VELOTRACK_ISBACKWARD s i \<noteq> 1 then 1 else 0) +
     (if passes_quality s i \<and> forward_slot 3 (eta_t s i) then 1 else 0)"
  "nPrimaryForTracks_1 (track_body i s) =
     nPrimaryForTracks_1 s + (if passes_quality s i \<and> forward_slot 0 (eta_t s i) then 1 else 0)"
  "nPrimaryForTracks_2 (track_body i s) =
     nPrimaryForTracks_2 s + (if passes_quality s i \<and> forward_slot 1 (eta_t s i) then 1 else 0)"
  "nPrimaryForTracks_3 (track_body i s) =
     nPrimaryForTracks_3 s + (if passes_quality s i \<and> forward_slot 2 (eta_t s i) then 1 else 0)"
  by (simp_all add: track_body_def accumulate_def Let_def block_frames block_effects
        passes_quality_def forward_slot_def)


lemma track_body_back:
  "Qx_back (track_body i s) h =
     Qx_back s h + (if passes_quality s i \<and> eta_t s i < - 0.5 \<and> h < 2
                    then cos (real (Suc h) * phi_t s i) else 0)"
  "Qy_back (track_body i s) h =
     Qy_back s h + (if passes_quality s i \<and> eta_t s i < - 0.5 \<and> h < 2
                    then sin (real (Suc h) * phi_t s i) else 0)"
  "Qx_back_wEta (track_body i s) h =
     Qx_back_wEta s h + (if passes_quality s i \<and> eta_t s i < - 0.5 \<and> h = 0
                         then eta_t s i * cos (phi_t s i) else 0)"
  "Qy_back_wEta (track_body i s) h =
     Qy_back_wEta s h + (if passes_quality s i \<and> eta_t s i < - 0.5 \<and> h = 0
                         then eta_t s i * sin (phi_t s i) else 0)"
  by (cases "h < 2"; cases "h = 0";
      simp add: track_body_def accumulate_def Let_def block_frames block_effects
        passes_quality_def less_Suc_eq numeral_2_eq_2)+

lemma track_body_for:
  "Qx_for (track_body i s) h k =
     Qx_for s h k + (if passes_quality s i \<and> forward_slot k (eta_t s i) \<and> h < 2
                     then cos (real (Suc h) * phi_t s i) else 0)"
  "Qy_for (track_body i s) h k =
     Qy_for s h k + (if passes_quality s i \<and> forward_slot k (eta_t s i) \<and> h < 2
                     then sin (real (Suc h) * phi_t s i) else 0)"
  "Qx_for_wEta (track_body i s) h k =
     Qx_for_wEta s h k + (if passes_quality s i \<and> forward_slot k (eta_t s i) \<and> h = 0
                          then eta_t s i * cos (phi_t s i) else 0)"
  "Qy_for_wEta (track_body i s) h k =
     Qy_for_wEta s h k + (if passes_quality s i \<and> forward_slot k (eta_t s i) \<and> h = 0
                          then eta_t s i * sin (phi_t s i) else 0)"
  by (cases "h < 2"; cases "h = 0";
      simp add: track_body_def accumulate_def Let_def block_frames block_effects
        passes_quality_def forward_slot_def less_Suc_eq numeral_2_eq_2)+


lemma track_loop_fold: "track_loop i n s = fold track_body [i..<nat n] s"
proof (induction i n s rule: track_loop.induct)
  case (1 i n s)
  show ?case
  proof (cases "int i < n")
    case True
    then have "i < nat n" by simp
    then have "[i..<nat n] = i # [Suc i..<nat n]" by (rule upt_conv_Cons)
    with True 1 show ?thesis by (simp add: track_loop.simps[of i])
  next
    case False
    then show ?thesis by (simp add: track_loop.simps[of i])
  qed
qed

lemma track_at_body: "j \<noteq> i \<Longrightarrow> track_at (track_body i s) j = track_at s j"
  by (simp add: track_at_def track_body_frame track_body_eta)

lemma track_at_fold: "j \<notin> set xs \<Longrightarrow> track_at (fold track_body xs s) j = track_at s j"
  by (induction xs arbitrary: s) (auto simp: track_at_body)

lemma fold_track_body_additive:
  fixes c :: "loop_state \<Rightarrow> 'a::monoid_add"
  assumes step: "\<And>i s. c (track_body i s) = c s + d s i"
    and dep: "\<And>s s' i. track_at s i = track_at s' i \<Longrightarrow> d s i = d s' i"
    and dist: "distinct xs"
  shows "c (fold track_body xs s) = c s + sum_list (map (d s) xs)"
  using dist
proof (induction xs rule: rev_induct)
  case Nil
  show ?case by simp
next
  case (snoc x xs)
  then have x: "x \<notin> set xs" and d: "distinct xs" by simp_all
  have "d (fold track_body xs s) x = d s x"
    by (rule dep) (simp add: track_at_fold x)
  with snoc.IH [OF d] show ?case
    by (simp add: step add.assoc)
qed

lemma sum_list_indicator:
  "sum_list (map (\<lambda>i. if P i then 1 else 0) xs) = int (length (filter P xs))"
  by (induction xs) simp_all

lemma track_loop_additive:
  fixes c :: "loop_state \<Rightarrow> 'a::monoid_add"
  assumes "\<And>i s. c (track_body i s) = c s + d s i"
    and "\<And>s s' i. track_at s i = track_at s' i \<Longrightarrow> d s i = d s' i"
  shows "c (track_loop 0 n s) = c s + sum_list (map (d s) [0..<nat n])"
  unfolding track_loop_fold by (rule fold_track_body_additive [OF assms distinct_upt])

lemma track_at_eq_iff:
  "track_at s i = track_at s' i \<Longrightarrow>
     passes_quality s i = passes_quality s' i \<and> eta_t s i = eta_t s' i \<and>
     phi_t s i = phi_t s' i \<and> VELOTRACK_ISBACKWARD s i = VELOTRACK_ISBACKWARD s' i"
  by (simp add: track_at_def passes_quality_def eta_t_def phi_t_def)

lemma init_state_tracks:
  "passes_quality (init_state e) i = passes_quality e i"
  "eta_t (init_state e) i = eta_t e i"
  "phi_t (init_state e) i = phi_t e i"
  "VELOTRACK_ISBACKWARD (init_state e) = VELOTRACK_ISBACKWARD e"
  "VELOTRACK_ETA (init_state e) = VELOTRACK_ETA e"
  "VELOTRACK_PHI (init_state e) = VELOTRACK_PHI e"
  "VELOTRACK_BIPCHI2 (init_state e) = VELOTRACK_BIPCHI2 e"
  by (simp_all add: init_state_def passes_quality_def eta_t_def phi_t_def)

lemma back_count:
  "nPrimaryBackTracks (after_tracks e) =
     int (length (filter (\<lambda>i. passes_quality e i \<and> VELOTRACK_ISBACKWARD e i = 1)
                    [0..<nat (nVeloTracks e)]))"
proof -
  have "nPrimaryBackTracks (track_loop 0 n s) = nPrimaryBackTracks s +
      sum_list (map (\<lambda>i. if passes_quality s i \<and> VELOTRACK_ISBACKWARD s i = 1 then 1 else 0) [0..<nat n])" for n s
    by (rule track_loop_additive) (auto simp: track_body_counters dest: track_at_eq_iff)
  then show ?thesis
    by (simp add: after_tracks_def sum_list_indicator init_state_tracks) (simp add: init_state_def)
qed


lemma bin_counts:
  "nPrimaryForTracks_1 (after_tracks e) =
     int (length (filter (\<lambda>i. passes_quality e i \<and> forward_slot 0 (eta_t e i))
                    [0..<nat (nVeloTracks e)]))"
  "nPrimaryForTracks_2 (after_tracks e) =
     int (length (filter (\<lambda>i. passes_quality e i \<and> forward_slot 1 (eta_t e i))
                    [0..<nat (nVeloTracks e)]))"
  "nPrimaryForTracks_3 (after_tracks e) =
     int (length (filter (\<lambda>i. passes_quality e i \<and> forward_slot 2 (eta_t e i))
                    [0..<nat (nVeloTracks e)]))"
proof -
  have "nPrimaryForTracks_1 (track_loop 0 n s) = nPrimaryForTracks_1 s +
      sum_list (map (\<lambda>i. if passes_quality s i \<and> forward_slot 0 (eta_t s i) then 1 else 0) [0..<nat n])" for n s
    by (rule track_loop_additive) (auto simp: track_body_counters dest: track_at_eq_iff)
  then show "nPrimaryForTracks_1 (after_tracks e) =
     int (length (filter (\<lambda>i. passes_quality e i \<and> forward_slot 0 (eta_t e i))
                    [0..<nat (nVeloTracks e)]))"
    by (simp add: after_tracks_def sum_list_indicator init_state_tracks) (simp add: init_state_def)
  have "nPrimaryForTracks_2 (track_loop 0 n s) = nPrimaryForTracks_2 s +
      sum_list (map (\<lambda>i. if passes_quality s i \<and> forward_slot 1 (eta_t s i) then 1 else 0) [0..<nat n])" for n s
    by (rule track_loop_additive) (auto simp: track_body_counters dest: track_at_eq_iff)
  then show "nPrimaryForTracks_2 (after_tracks e) =
     int (length (filter (\<lambda>i. passes_quality e i \<and> forward_slot 1 (eta_t e i))
                    [0..<nat (nVeloTracks e)]))"
    by (simp add: after_tracks_def sum_list_indicator init_state_tracks) (simp add: init_state_def)
  have "nPrimaryForTracks_3 (track_loop 0 n s) = nPrimaryForTracks_3 s +
      sum_list (map (\<lambda>i. if passes_quality s i \<and> forward_slot 2 (eta_t s i) then 1 else 0) [0..<nat n])" for n s
    by (rule track_loop_additive) (auto simp: track_body_counters dest: track_at_eq_iff)
  then show "nPrimaryForTracks_3 (after_tracks e) =
     int (length (filter (\<lambda>i. passes_quality e i \<and> forward_slot 2 (eta_t e i))
                    [0..<nat (nVeloTracks e)]))"
    by (simp add: after_tracks_def sum_list_indicator init_state_tracks) (simp add: init_state_def)
qed

lemma sum_list_indicator2:
  "sum_list (map (\<lambda>i. (if P i then 1 else 0) + (if Q i then 1 else 0)) xs) =
     int (length (filter P xs)) + int (length (filter Q xs))"
  by (induction xs) simp_all

lemma for_count:
  "nPrimaryForTracks (after_tracks e) =
     int (length (filter (\<lambda>i. passes_quality e i \<and> VELOTRACK_ISBACKWARD e i \<noteq> 1)
                    [0..<nat (nVeloTracks e)])) +
     int (length (filter (\<lambda>i. passes_quality e i \<and> forward_slot 3 (eta_t e i))
                    [0..<nat (nVeloTracks e)]))"
proof -
  have "nPrimaryForTracks (track_loop 0 n s) = nPrimaryForTracks s +
      sum_list (map (\<lambda>i. (if passes_quality s i \<and> VELOTRACK_ISBACKWARD s i \<noteq> 1 then 1 else 0) +
                          (if passes_quality s i \<and> forward_slot 3 (eta_t s i) then 1 else 0)) [0..<nat n])" for n s
    by (rule track_loop_additive) (auto simp: track_body_counters dest: track_at_eq_iff)
  then show ?thesis
    by (simp add: after_tracks_def sum_list_indicator2 init_state_tracks) (simp add: init_state_def)
qed

lemma upt_23:
  "[0..<23] = [0, 1, 2, 3, 4, 5, 6, 7, 8, 9, 10, 11, 12, 13, 14, 15, 16, 17, 18, 19, 20, 21, 22::nat]"
  by code_simp

lemma sample_entry_tracks:
  "passes_quality (sample_entry n) i = (i \<noteq> 22)"
  "VELOTRACK_ISBACKWARD (sample_entry n) i = (if (10 \<le> i \<and> i < 15) \<or> i = 20 \<or> i = 21 then 1 else 0)"
  "nVeloTracks (sample_entry n) = n"
  by (simp_all add: sample_entry_def passes_quality_def)

lemma sample_entry_eta:
  "eta_t (sample_entry n) i =
     (if i < 5 then 1 else if i < 10 then 5 else if i < 15 then - 2
      else if i < 20 then 3 else if i = 20 then - 1 else if i = 21 then - 0.2 else 3)"
  by (simp add: sample_entry_def eta_t_def)

lemma sample_23:
  "nPrimaryBackTracks (after_tracks (sample_entry 23)) = 7"
  "nPrimaryForTracks_1 (after_tracks (sample_entry 23)) = 5"
  "nPrimaryForTracks_2 (after_tracks (sample_entry 23)) = 5"
  "nPrimaryForTracks_3 (after_tracks (sample_entry 23)) = 5"
  "nPrimaryForTracks (after_tracks (sample_entry 23)) = 30"
  by (simp_all add: back_count bin_counts for_count sample_entry_tracks sample_entry_eta upt_23 forward_slot_def)

lemma track_loop_invariant:
  fixes c :: "loop_state \<Rightarrow> real"
  assumes "\<And>i s. c (track_body i s) = c s"
  shows "c (track_loop 0 n s) = c s"
  using track_loop_additive [of c "\<lambda>s i. 0" n s] assms by simp

lemma forward_slot_partition:
  "forward_slot 3 eta = (forward_slot 0 eta \<or> forward_slot 1 eta \<or> forward_slot 2 eta)"
  "\<not> (forward_slot 0 eta \<and> forward_slot 1 eta)"
  "\<not> (forward_slot 0 eta \<and> forward_slot 2 eta)"
  "\<not> (forward_slot 1 eta \<and> forward_slot 2 eta)"
  by (auto simp: forward_slot_def)

lemma union_defect_body:
  "Qx_for (track_body i s) h 3 - (Qx_for (track_body i s) h 0 + Qx_for (track_body i s) h 1 + Qx_for (track_body i s) h 2)
     = Qx_for s h 3 - (Qx_for s h 0 + Qx_for s h 1 + Qx_for s h 2)"
  "Qy_for (track_body i s) h 3 - (Qy_for (track_body i s) h 0 + Qy_for (track_body i s) h 1 + Qy_for (track_body i s) h 2)
     = Qy_for s h 3 - (Qy_for s h 0 + Qy_for s h 1 + Qy_for s h 2)"
  "Qx_for_wEta (track_body i s) h 3 - (Qx_for_wEta (track_body i s) h 0 + Qx_for_wEta (track_body i s) h 1 + Qx_for_wEta (track_body i s) h 2)
     = Qx_for_wEta s h 3 - (Qx_for_wEta s h 0 + Qx_for_wEta s h 1 + Qx_for_wEta s h 2)"
  "Qy_for_wEta (track_body i s) h 3 - (Qy_for_wEta (track_body i s) h 0 + Qy_for_wEta (track_body i s) h 1 + Qy_for_wEta (track_body i s) h 2)
     = Qy_for_wEta s h 3 - (Qy_for_wEta s h 0 + Qy_for_wEta s h 1 + Qy_for_wEta s h 2)"
  using forward_slot_partition [of "eta_t s i"]
  by (auto simp: track_body_for)

lemma init_state_sums:
  "Qx_for (init_state e) h j = 0" "Qy_for (init_state e) h j = 0"
  "Qx_for_wEta (init_state e) h j = 0" "Qy_for_wEta (init_state e) h j = 0"
  "Qx_back (init_state e) h = 0" "Qy_back (init_state e) h = 0"
  "Qx_back_wEta (init_state e) h = 0" "Qy_back_wEta (init_state e) h = 0"
  "nPrimaryForTracks (init_state e) = 0" "nPrimaryBackTracks (init_state e) = 0"
  "nPrimaryForTracks_1 (init_state e) = 0" "nPrimaryForTracks_2 (init_state e) = 0"
  "nPrimaryForTracks_3 (init_state e) = 0"
  by (simp_all add: init_state_def)

lemma union_sums:
  "Qx_for (after_tracks e) h 3 =
     Qx_for (after_tracks e) h 0 + Qx_for (after_tracks e) h 1 + Qx_for (after_tracks e) h 2"
  "Qy_for (after_tracks e) h 3 =
     Qy_for (after_tracks e) h 0 + Qy_for (after_tracks e) h 1 + Qy_for (after_tracks e) h 2"
  "Qx_for_wEta (after_tracks e) h 3 =
     Qx_for_wEta (after_tracks e) h 0 + Qx_for_wEta (after_tracks e) h 1 + Qx_for_wEta (after_tracks e) h 2"
  "Qy_for_wEta (after_tracks e) h 3 =
     Qy_for_wEta (after_tracks e) h 0 + Qy_for_wEta (after_tracks e) h 1 + Qy_for_wEta (after_tracks e) h 2"
  using track_loop_invariant [of "\<lambda>s. Qx_for s h 3 - (Qx_for s h 0 + Qx_for s h 1 + Qx_for s h 2)", OF union_defect_body(1), of "nVeloTracks e" "init_state e"]
        track_loop_invariant [of "\<lambda>s. Qy_for s h 3 - (Qy_for s h 0 + Qy_for s h 1 + Qy_for s h 2)", OF union_defect_body(2), of "nVeloTracks e" "init_state e"]
        track_loop_invariant [of "\<lambda>s. Qx_for_wEta s h 3 - (Qx_for_wEta s h 0 + Qx_for_wEta s h 1 + Qx_for_wEta s h 2)", OF union_defect_body(3), of "nVeloTracks e" "init_state e"]
        track_loop_invariant [of "\<lambda>s. Qy_for_wEta s h 3 - (Qy_for_wEta s h 0 + Qy_for_wEta s h 1 + Qy_for_wEta s h 2)", OF union_defect_body(4), of "nVeloTracks e" "init_state e"]
  by (simp_all add: after_tracks_def init_state_sums)

lemma arrays_fold:
  assumes "distinct xs"
  shows "VELOTRACK_ETA (fold track_body xs s) j =
           (if j \<in> set xs \<and> passes_quality s j then eta_t s j else VELOTRACK_ETA s j) \<and>
         VELOTRACK_PHI (fold track_body xs s) j =
           (if j \<in> set xs \<and> passes_quality s j then phi_t s j else VELOTRACK_PHI s j)"
  using assms
proof (induction xs rule: rev_induct)
  case Nil
  show ?case by simp
next
  case (snoc x xs)
  then have x: "x \<notin> set xs" and d: "distinct xs" by simp_all
  have "track_at (fold track_body xs s) x = track_at s x"
    by (simp add: track_at_fold x)
  then have "passes_quality (fold track_body xs s) x = passes_quality s x"
    "eta_t (fold track_body xs s) x = eta_t s x" "phi_t (fold track_body xs s) x = phi_t s x"
    by (auto dest: track_at_eq_iff)
  with snoc.IH [OF d] x show ?case
    by (auto simp: track_body_eta)
qed

lemma arrays_after_tracks:
  "VELOTRACK_ETA (after_tracks e) k =
     (if k < nat (nVeloTracks e) \<and> passes_quality e k then eta_t e k else VELOTRACK_ETA e k)"
  "VELOTRACK_PHI (after_tracks e) k =
     (if k < nat (nVeloTracks e) \<and> passes_quality e k then phi_t e k else VELOTRACK_PHI e k)"
  using arrays_fold [of "[0..<nat (nVeloTracks e)]" "init_state e" k]
  by (simp_all add: after_tracks_def track_loop_fold init_state_tracks)

section \<open>One entry, end to end\<close>

lemma process_entry_Some:
  "process_entry e = Some evt \<Longrightarrow> evt = fill_event (after_tracks e)"
  by (simp add: process_entry_def Let_def split: if_splits)

lemma event_loop_map_filter:
  "event_loop es out = out @ List.map_filter process_entry es"
  by (induction es arbitrary: out) (simp_all add: map_filter_simps split: option.split)

lemma sample_entry_accepted: "\<not> event_rejected (sample_entry 23)"
  by (simp add: event_rejected_def sample_entry_def)

lemma sample_23_emitted:
  "process_entry (sample_entry 23) = Some (fill_event (after_tracks (sample_entry 23)))"
  by (simp add: process_entry_def Let_def sample_entry_accepted multiplicity_rejected_def sample_23)

lemma weighted_second_harmonic_body:
  "Qx_back_wEta (track_body i s) (Suc h) = Qx_back_wEta s (Suc h)"
  "Qy_back_wEta (track_body i s) (Suc h) = Qy_back_wEta s (Suc h)"
  "Qx_for_wEta (track_body i s) (Suc h) j = Qx_for_wEta s (Suc h) j"
  "Qy_for_wEta (track_body i s) (Suc h) j = Qy_for_wEta s (Suc h) j"
  by (simp_all add: track_body_back track_body_for)

lemma weighted_second_harmonic_zero:
  "Qx_back_wEta (after_tracks e) (Suc h) = 0"
  "Qy_back_wEta (after_tracks e) (Suc h) = 0"
  "Qx_for_wEta (after_tracks e) (Suc h) j = 0"
  "Qy_for_wEta (after_tracks e) (Suc h) j = 0"
  using track_loop_invariant [of "\<lambda>s. Qx_back_wEta s (Suc h)", OF weighted_second_harmonic_body(1), of "nVeloTracks e" "init_state e"]
        track_loop_invariant [of "\<lambda>s. Qy_back_wEta s (Suc h)", OF weighted_second_harmonic_body(2), of "nVeloTracks e" "init_state e"]
        track_loop_invariant [of "\<lambda>s. Qx_for_wEta s (Suc h) j", OF weighted_second_harmonic_body(3), of "nVeloTracks e" "init_state e"]
        track_loop_invariant [of "\<lambda>s. Qy_for_wEta s (Suc h) j", OF weighted_second_harmonic_body(4), of "nVeloTracks e" "init_state e"]
  by (simp_all add: after_tracks_def init_state_sums)

lemma track_body_final_values:
  "passes_quality s i \<Longrightarrow> VELOTRACK_ETA (track_body i s) i = eta_t s i"
  "passes_quality s i \<Longrightarrow> VELOTRACK_PHI (track_body i s) i = phi_t s i"
  by (simp_all add: track_body_eta)

lemma sample_entry_phi:
  "phi_t (sample_entry n) i =
     (if (10 \<le> i \<and> i < 15) \<or> i = 21 then pi else if i = 20 then 0.2 + pi else 0)"
  by (simp add: sample_entry_def phi_t_def)

lemma upt_19:
  "[0..<19] = [0, 1, 2, 3, 4, 5, 6, 7, 8, 9, 10, 11, 12, 13, 14, 15, 16, 17, 18::nat]"
  by code_simp

lemma upt_20:
  "[0..<20] = [0, 1, 2, 3, 4, 5, 6, 7, 8, 9, 10, 11, 12, 13, 14, 15, 16, 17, 18, 19::nat]"
  by code_simp

lemma sample_19:
  "nPrimaryBackTracks (after_tracks (sample_entry 19)) = 5"
  "nPrimaryForTracks_1 (after_tracks (sample_entry 19)) = 5"
  "nPrimaryForTracks_2 (after_tracks (sample_entry 19)) = 4"
  "nPrimaryForTracks_3 (after_tracks (sample_entry 19)) = 5"
  "nPrimaryForTracks (after_tracks (sample_entry 19)) = 28"
  by (simp_all add: back_count bin_counts for_count sample_entry_tracks sample_entry_eta upt_19 forward_slot_def)

lemma sample_20:
  "nPrimaryBackTracks (after_tracks (sample_entry 20)) = 5"
  "nPrimaryForTracks_1 (after_tracks (sample_entry 20)) = 5"
  "nPrimaryForTracks_2 (after_tracks (sample_entry 20)) = 5"
  "nPrimaryForTracks_3 (after_tracks (sample_entry 20)) = 5"
  "nPrimaryForTracks (after_tracks (sample_entry 20)) = 30"
  by (simp_all add: back_count bin_counts for_count sample_entry_tracks sample_entry_eta upt_20 forward_slot_def)

lemma sample_entry_gate:
  "event_rejected (sample_entry n) = (n < 15)"
  by (simp add: event_rejected_def sample_entry_def)

section \<open>The index and the candidate loop, field by field\<close>

lemma cut_bump:
  "cut b (\<lambda>s. s\<lparr>cut_nBackTracks := cut_nBackTracks s + 1\<rparr>) (s, fl) =
     (s\<lparr>cut_nBackTracks := cut_nBackTracks s + (if b then 1 else 0)\<rparr>, b \<or> fl)"
  "cut b (\<lambda>s. s\<lparr>cut_nVeloTracks := cut_nVeloTracks s + 1\<rparr>) (s, fl) =
     (s\<lparr>cut_nVeloTracks := cut_nVeloTracks s + (if b then 1 else 0)\<rparr>, b \<or> fl)"
  "cut b (\<lambda>s. s\<lparr>cut_nPVs := cut_nPVs s + 1\<rparr>) (s, fl) =
     (s\<lparr>cut_nPVs := cut_nPVs s + (if b then 1 else 0)\<rparr>, b \<or> fl)"
  "cut b (\<lambda>s. s\<lparr>cut_PVZ := cut_PVZ s + 1\<rparr>) (s, fl) =
     (s\<lparr>cut_PVZ := cut_PVZ s + (if b then 1 else 0)\<rparr>, b \<or> fl)"
  "cut b (\<lambda>s. s\<lparr>cut_L0_BPVFDCHI2 := cut_L0_BPVFDCHI2 s + 1\<rparr>) (s, fl) =
     (s\<lparr>cut_L0_BPVFDCHI2 := cut_L0_BPVFDCHI2 s + (if b then 1 else 0)\<rparr>, b \<or> fl)"
  "cut b (\<lambda>s. s\<lparr>cut_L0_BPVDIRA := cut_L0_BPVDIRA s + 1\<rparr>) (s, fl) =
     (s\<lparr>cut_L0_BPVDIRA := cut_L0_BPVDIRA s + (if b then 1 else 0)\<rparr>, b \<or> fl)"
  "cut b (\<lambda>s. s\<lparr>cut_p_BPVIPCHI2 := cut_p_BPVIPCHI2 s + 1\<rparr>) (s, fl) =
     (s\<lparr>cut_p_BPVIPCHI2 := cut_p_BPVIPCHI2 s + (if b then 1 else 0)\<rparr>, b \<or> fl)"
  "cut b (\<lambda>s. s\<lparr>cut_pi_BPVIPCHI2 := cut_pi_BPVIPCHI2 s + 1\<rparr>) (s, fl) =
     (s\<lparr>cut_pi_BPVIPCHI2 := cut_pi_BPVIPCHI2 s + (if b then 1 else 0)\<rparr>, b \<or> fl)"
  "cut b (\<lambda>s. s\<lparr>cut_p_PT := cut_p_PT s + 1\<rparr>) (s, fl) =
     (s\<lparr>cut_p_PT := cut_p_PT s + (if b then 1 else 0)\<rparr>, b \<or> fl)"
  "cut b (\<lambda>s. s\<lparr>cut_pi_PT := cut_pi_PT s + 1\<rparr>) (s, fl) =
     (s\<lparr>cut_pi_PT := cut_pi_PT s + (if b then 1 else 0)\<rparr>, b \<or> fl)"
  "cut b (\<lambda>s. s\<lparr>cut_p_GHOSTPROB := cut_p_GHOSTPROB s + 1\<rparr>) (s, fl) =
     (s\<lparr>cut_p_GHOSTPROB := cut_p_GHOSTPROB s + (if b then 1 else 0)\<rparr>, b \<or> fl)"
  "cut b (\<lambda>s. s\<lparr>cut_pi_GHOSTPROB := cut_pi_GHOSTPROB s + 1\<rparr>) (s, fl) =
     (s\<lparr>cut_pi_GHOSTPROB := cut_pi_GHOSTPROB s + (if b then 1 else 0)\<rparr>, b \<or> fl)"
  by (simp_all add: cut_def)

lemma apply_cuts_fst:
  "fst (apply_cuts c s) =
     s\<lparr>cut_nBackTracks := cut_nBackTracks s + (if nBackTracks_cand c < 10 then 1 else 0),
       cut_nVeloTracks := cut_nVeloTracks s + (if nVeloTracks_cand c < 15 then 1 else 0),
       cut_nPVs := cut_nPVs s + (if nPVs_cand c \<noteq> 1 then 1 else 0),
       cut_PVZ := cut_PVZ s + (if PVZ_cand c 0 < - 100 \<or> PVZ_cand c 0 > 100 then 1 else 0),
       cut_L0_BPVFDCHI2 := cut_L0_BPVFDCHI2 s + (if L0_BPVFDCHI2 c < 130 then 1 else 0),
       cut_L0_BPVDIRA := cut_L0_BPVDIRA s + (if L0_BPVDIRA c < double_0_9999 then 1 else 0),
       cut_p_BPVIPCHI2 := cut_p_BPVIPCHI2 s + (if p_BPVIPCHI2 c < 25 then 1 else 0),
       cut_pi_BPVIPCHI2 := cut_pi_BPVIPCHI2 s + (if pi_BPVIPCHI2 c < 25 then 1 else 0),
       cut_p_PT := cut_p_PT s + (if p_PT c < 500 then 1 else 0),
       cut_pi_PT := cut_pi_PT s + (if pi_PT c < 200 then 1 else 0),
       cut_p_GHOSTPROB := cut_p_GHOSTPROB s + (if p_GHOSTPROB c > double_0_1 then 1 else 0),
       cut_pi_GHOSTPROB := cut_pi_GHOSTPROB s + (if pi_GHOSTPROB c > double_0_1 then 1 else 0)\<rparr>"
  by (simp add: apply_cuts_def Let_def cut_bump)

lemma apply_cuts_snd: "snd (apply_cuts c s) = any_cut_fails c"
  by (simp add: apply_cuts_def Let_def cut_bump any_cut_fails_def) blast


lemma candidate_body_cuts:
  "cut_nBackTracks (candidate_body c s) =
     cut_nBackTracks s + (if nBackTracks_cand c < 10 then 1 else 0)"
  "cut_nVeloTracks (candidate_body c s) =
     cut_nVeloTracks s + (if nVeloTracks_cand c < 15 then 1 else 0)"
  "cut_nPVs (candidate_body c s) = cut_nPVs s + (if nPVs_cand c \<noteq> 1 then 1 else 0)"
  "cut_PVZ (candidate_body c s) =
     cut_PVZ s + (if PVZ_cand c 0 < - 100 \<or> PVZ_cand c 0 > 100 then 1 else 0)"
  "cut_L0_BPVFDCHI2 (candidate_body c s) =
     cut_L0_BPVFDCHI2 s + (if L0_BPVFDCHI2 c < 130 then 1 else 0)"
  "cut_L0_BPVDIRA (candidate_body c s) =
     cut_L0_BPVDIRA s + (if L0_BPVDIRA c < double_0_9999 then 1 else 0)"
  "cut_p_BPVIPCHI2 (candidate_body c s) =
     cut_p_BPVIPCHI2 s + (if p_BPVIPCHI2 c < 25 then 1 else 0)"
  "cut_pi_BPVIPCHI2 (candidate_body c s) =
     cut_pi_BPVIPCHI2 s + (if pi_BPVIPCHI2 c < 25 then 1 else 0)"
  "cut_p_PT (candidate_body c s) = cut_p_PT s + (if p_PT c < 500 then 1 else 0)"
  "cut_pi_PT (candidate_body c s) = cut_pi_PT s + (if pi_PT c < 200 then 1 else 0)"
  "cut_p_GHOSTPROB (candidate_body c s) =
     cut_p_GHOSTPROB s + (if p_GHOSTPROB c > double_0_1 then 1 else 0)"
  "cut_pi_GHOSTPROB (candidate_body c s) =
     cut_pi_GHOSTPROB s + (if pi_GHOSTPROB c > double_0_1 then 1 else 0)"
  "cut_L0_BPVIPCHI2 (candidate_body c s) = cut_L0_BPVIPCHI2 s"
  by (simp_all add: candidate_body_def Let_def apply_cuts_fst apply_cuts_snd
        split: option.split)

lemma candidate_body_totals:
  "totalLambdas (candidate_body c s) = totalLambdas s + 1"
  "failedCuts (candidate_body c s) = failedCuts s + (if any_cut_fails c then 1 else 0)"
  "noMatch (candidate_body c s) =
     noMatch s + (if \<not> any_cut_fails c \<and> epIndexMap s (cand_key c) = None then 1 else 0)"
  "saved (candidate_body c s) =
     saved s + (if \<not> any_cut_fails c \<and> epIndexMap s (cand_key c) \<noteq> None then 1 else 0)"
  "epIndexMap (candidate_body c s) = epIndexMap s"
  by (auto simp: candidate_body_def Let_def apply_cuts_fst apply_cuts_snd cand_key_def
        split: option.split)

lemma candidate_body_failing:
  assumes "any_cut_fails c"
  shows "cerr (candidate_body c s) = cerr s" "outTree (candidate_body c s) = outTree s"
    "candidate_body c (s\<lparr>epIndexMap := m\<rparr>) = (candidate_body c s)\<lparr>epIndexMap := m\<rparr>"
  using assms
  by (simp_all add: candidate_body_def Let_def apply_cuts_fst apply_cuts_snd)

lemma candidate_loop_fold: "candidate_loop tree i s = fold candidate_body (drop i tree) s"
proof (induction tree i s rule: candidate_loop.induct)
  case (1 tree i s)
  show ?case
  proof (cases "i < length tree")
    case True
    then have "drop i tree = tree ! i # drop (Suc i) tree" by (simp add: Cons_nth_drop_Suc)
    with True 1 show ?thesis by (simp add: candidate_loop.simps [of tree i])
  next
    case False
    then show ?thesis by (simp add: candidate_loop.simps [of tree i])
  qed
qed

lemma fold_candidate_body_index:
  "epIndexMap (fold candidate_body cs s) = epIndexMap s"
  by (induction cs arbitrary: s) (simp_all add: candidate_body_totals)

lemma fold_candidate_body_totals:
  "totalLambdas (fold candidate_body cs s) = totalLambdas s + of_nat (length cs)"
  "failedCuts (fold candidate_body cs s) =
     failedCuts s + of_nat (length (filter any_cut_fails cs))"
  "noMatch (fold candidate_body cs s) =
     noMatch s + of_nat (length (filter (\<lambda>c. \<not> any_cut_fails c \<and>
                                              epIndexMap s (cand_key c) = None) cs))"
  "saved (fold candidate_body cs s) =
     saved s + of_nat (length (filter (\<lambda>c. \<not> any_cut_fails c \<and>
                                              epIndexMap s (cand_key c) \<noteq> None) cs))"
  by (induction cs arbitrary: s; simp add: candidate_body_totals)+


lemma index_body_fields:
  "epIndexMap (index_body ep k s) = (epIndexMap s)(ep_key ep \<mapsto> k)"
  "cerr (index_body ep k s) =
     cerr s @ (if epIndexMap s (ep_key ep) \<noteq> None
               then [DuplicateEPKey (ep_RUNNUMBER ep) (ep_EVENTNUMBER ep)] else [])"
  "totalLambdas (index_body ep k s) = totalLambdas s"
  "failedCuts (index_body ep k s) = failedCuts s"
  "noMatch (index_body ep k s) = noMatch s"
  "saved (index_body ep k s) = saved s"
  by (simp_all add: index_body_def Let_def ep_key_def)

lemma index_loop_fold:
  "index_loop EPtree i s =
     fold (\<lambda>k. index_body (EPtree ! k) (int k)) [i..<length EPtree] s"
proof (induction EPtree i s rule: index_loop.induct)
  case (1 EPtree i s)
  show ?case
  proof (cases "i < length EPtree")
    case True
    then have "[i..<length EPtree] = i # [Suc i..<length EPtree]" by (rule upt_conv_Cons)
    with True 1 show ?thesis by (simp add: index_loop.simps [of EPtree i])
  next
    case False
    then show ?thesis by (simp add: index_loop.simps [of EPtree i])
  qed
qed

lemma index_prefix:
  assumes "n \<le> length EPtree"
  defines "s \<equiv> fold (\<lambda>k. index_body (EPtree ! k) (int k)) [0..<n] init_prep"
  shows "(epIndexMap s key = None) = (key \<notin> set (map ep_key (take n EPtree)))"
    and "k < n \<Longrightarrow> (\<forall>j. k < j \<and> j < n \<longrightarrow> ep_key (EPtree ! j) \<noteq> ep_key (EPtree ! k)) \<Longrightarrow>
           epIndexMap s (ep_key (EPtree ! k)) = Some (int k)"
    and "cerr s =
           map (\<lambda>k. DuplicateEPKey (ep_RUNNUMBER (EPtree ! k)) (ep_EVENTNUMBER (EPtree ! k)))
             (filter (\<lambda>k. ep_key (EPtree ! k) \<in> set (map ep_key (take k EPtree))) [0..<n])"
    and "length (cerr s) + card (set (map ep_key (take n EPtree))) = n"
    and "totalLambdas s = 0 \<and> failedCuts s = 0 \<and> noMatch s = 0 \<and> saved s = 0"
  using assms(1) unfolding s_def
proof (induction n arbitrary: key k)
  case 0
  {
    case 1 show ?case by (simp add: init_prep_def)
  next
    case 2 then show ?case by simp
  next
    case 3 show ?case by (simp add: init_prep_def)
  next
    case 4 show ?case by (simp add: init_prep_def)
  next
    case 5 show ?case by (simp add: init_prep_def)
  }
next
  case (Suc n)
  let ?s = "fold (\<lambda>k. index_body (EPtree ! k) (int k)) [0..<n] init_prep"
  {
    case 1
    then have n: "n < length EPtree" by simp
    with Suc.IH(1) [of key] show ?case
      by (auto simp: index_body_fields take_Suc_conv_app_nth)
  next
    case 2
    then have n: "n < length EPtree" by simp
    show ?case
    proof (cases "k = n")
      case True
      then show ?thesis by (simp add: index_body_fields)
    next
      case False
      with 2 have k: "k < n" by simp
      from 2 k have ne: "ep_key (EPtree ! n) \<noteq> ep_key (EPtree ! k)" by simp
      from 2 have "\<forall>j. k < j \<and> j < n \<longrightarrow> ep_key (EPtree ! j) \<noteq> ep_key (EPtree ! k)" by simp
      with Suc.IH(2) [OF k] n have "epIndexMap ?s (ep_key (EPtree ! k)) = Some (int k)" by simp
      with ne show ?thesis by (simp add: index_body_fields)
    qed
  next
    case 3
    then have n: "n < length EPtree" by simp
    with Suc.IH(3) Suc.IH(1) [of "ep_key (EPtree ! n)"] show ?case
      by (simp add: index_body_fields)
  next
    case 4
    then have n: "n < length EPtree" by simp
    have fin: "finite (ep_key ` set (take n EPtree))" by simp
    from n Suc.IH(4) Suc.IH(1) [of "ep_key (EPtree ! n)"] show ?case
      by (auto simp: index_body_fields take_Suc_conv_app_nth card_insert_if)
  next
    case 5
    with Suc.IH(5) show ?case by (simp add: index_body_fields)
  }
qed


lemma index_loop_totals:
  "totalLambdas (index_loop EPtree 0 init_prep) = 0"
  "failedCuts (index_loop EPtree 0 init_prep) = 0"
  "noMatch (index_loop EPtree 0 init_prep) = 0"
  "saved (index_loop EPtree 0 init_prep) = 0"
  using index_prefix(5) [of "length EPtree" EPtree] by (simp_all add: index_loop_fold)

lemma sample_candidate_cuts:
  "any_cut_fails (sample_candidate ev pt) = (pt < 500)"
  "cand_key (sample_candidate ev pt) = (274156, ev)"
  by (simp_all add: any_cut_fails_def sample_candidate_def cand_key_def double_0_1_def
        double_0_9999_def)

lemma sample_candidate_boundary:
  "any_cut_fails ((sample_candidate ev pt)\<lparr>pi_GHOSTPROB := double_0_1\<rparr>) = (pt < 500)"
  "cand_key ((sample_candidate ev pt)\<lparr>pi_GHOSTPROB := double_0_1\<rparr>) = (274156, ev)"
  by (simp_all add: any_cut_fails_def sample_candidate_def cand_key_def double_0_1_def
        double_0_9999_def)

lemma sample_index:
  "epIndexMap (index_loop [sample_ep 274156 42 0] 0 init_prep) key =
     (if key = (274156, 42) then Some 0 else None)"
  by (simp add: index_loop_fold index_body_fields ep_key_def sample_ep_def init_prep_def)

section \<open>The claims about the event-plane builder\<close>

text \<open>
  Claim C1, evaluated on the code. The entry \<open>sample_entry 20\<close> passes the event
  selection; fifteen of its tracks pass the quality cut with a flipped eta in
  \<open>(0.5, 6.0]\<close>, but \<open>nPrimaryForTracks\<close> ends at thirty: line 270 counts each of the
  fifteen tracks without the backward flag, and line 340 counts the same tracks again
  in the inclusive block.
\<close>

theorem forward_counter_counts_twice:
  "\<not> event_rejected (sample_entry 20) \<and>
   nPrimaryForTracks (after_tracks (sample_entry 20)) = 30 \<and>
   length (filter (\<lambda>i. passes_quality (sample_entry 20) i \<and>
                        0.5 < eta_t (sample_entry 20) i \<and> eta_t (sample_entry 20) i \<le> 6.0)
             [0..<nat (nVeloTracks (sample_entry 20))]) = 15"
  by (simp add: sample_entry_gate sample_20 sample_entry_tracks sample_entry_eta upt_20)

text \<open>
  Claim C2. One iteration for a track that passes the quality cut, with \<open>eta\<close> and
  \<open>phi\<close> the values the iteration leaves in the arrays: for each harmonic index
  \<open>h < 2\<close> (order \<open>h + 1\<close>) the backward sums grow by \<open>cos ((h + 1) * phi)\<close> and
  \<open>sin ((h + 1) * phi)\<close> when \<open>eta < -0.5\<close>, and the sums of forward slot \<open>j < 4\<close> grow by
  the same terms when \<open>eta\<close> lies in the slot, each with weight one; the eta-weighted
  sums of harmonic index 0 grow by \<open>eta * cos phi\<close> and \<open>eta * sin phi\<close> in the same
  regions; the eta-weighted sums of harmonic index 1 are not touched, so they are zero
  in every object the entry loop emits.
\<close>

theorem harmonic_accumulation:
  assumes "passes_quality s i" and "h < 2" and "j < 4"
  shows "let s' = track_body i s; eta = VELOTRACK_ETA s' i; phi = VELOTRACK_PHI s' i in
     Qx_back s' h = Qx_back s h + (if eta < - 0.5 then cos (real (h + 1) * phi) else 0) \<and>
     Qy_back s' h = Qy_back s h + (if eta < - 0.5 then sin (real (h + 1) * phi) else 0) \<and>
     Qx_for s' h j = Qx_for s h j + (if forward_slot j eta then cos (real (h + 1) * phi) else 0) \<and>
     Qy_for s' h j = Qy_for s h j + (if forward_slot j eta then sin (real (h + 1) * phi) else 0) \<and>
     Qx_back_wEta s' 0 = Qx_back_wEta s 0 + (if eta < - 0.5 then eta * cos phi else 0) \<and>
     Qy_back_wEta s' 0 = Qy_back_wEta s 0 + (if eta < - 0.5 then eta * sin phi else 0) \<and>
     Qx_for_wEta s' 0 j = Qx_for_wEta s 0 j + (if forward_slot j eta then eta * cos phi else 0) \<and>
     Qy_for_wEta s' 0 j = Qy_for_wEta s 0 j + (if forward_slot j eta then eta * sin phi else 0) \<and>
     Qx_back_wEta s' 1 = Qx_back_wEta s 1 \<and> Qy_back_wEta s' 1 = Qy_back_wEta s 1 \<and>
     Qx_for_wEta s' 1 j = Qx_for_wEta s 1 j \<and> Qy_for_wEta s' 1 j = Qy_for_wEta s 1 j \<and>
     (\<forall>evt. process_entry e = Some evt \<longrightarrow>
        outQx_back_wEta evt 1 = 0 \<and> outQy_back_wEta evt 1 = 0 \<and>
        outQx_for_wEta evt 1 j = 0 \<and> outQy_for_wEta evt 1 j = 0)"
proof -
  have emitted: "outQx_back_wEta evt 1 = 0 \<and> outQy_back_wEta evt 1 = 0 \<and>
        outQx_for_wEta evt 1 j = 0 \<and> outQy_for_wEta evt 1 j = 0"
    if "process_entry e = Some evt" for evt
  proof -
    from that have "evt = fill_event (after_tracks e)" by (rule process_entry_Some)
    then show ?thesis
      by (simp add: fill_event_def weighted_second_harmonic_zero)
  qed
  from assms emitted show ?thesis
    by (simp add: Let_def track_body_final_values track_body_back track_body_for add.commute)
qed


theorem harmonic_accumulation_witness:
  "passes_quality (init_state (sample_entry 23)) 15 \<and>
   VELOTRACK_ETA (track_body 15 (init_state (sample_entry 23))) 15 = 3 \<and>
   VELOTRACK_PHI (track_body 15 (init_state (sample_entry 23))) 15 = 0 \<and>
   Qx_for (track_body 15 (init_state (sample_entry 23))) 1 3 = 1 \<and>
   Qy_for (track_body 15 (init_state (sample_entry 23))) 1 3 = 0 \<and>
   Qx_for_wEta (track_body 15 (init_state (sample_entry 23))) 0 3 = 3 \<and>
   Qx_for_wEta (track_body 15 (init_state (sample_entry 23))) 1 3 = 0 \<and>
   Qx_back (track_body 15 (init_state (sample_entry 23))) 1 = 0 \<and>
   passes_quality (init_state (sample_entry 23)) 20 \<and>
   VELOTRACK_ETA (track_body 20 (init_state (sample_entry 23))) 20 = - 1 \<and>
   VELOTRACK_PHI (track_body 20 (init_state (sample_entry 23))) 20 = 0.2 + pi \<and>
   Qx_back (track_body 20 (init_state (sample_entry 23))) 0 = cos (0.2 + pi) \<and>
   Qy_back (track_body 20 (init_state (sample_entry 23))) 0 = sin (0.2 + pi) \<and>
   Qx_back_wEta (track_body 20 (init_state (sample_entry 23))) 0 = - 1 * cos (0.2 + pi) \<and>
   Qx_for (track_body 20 (init_state (sample_entry 23))) 0 0 = 0 \<and>
   (\<exists>evt. process_entry (sample_entry 23) = Some evt \<and>
      outQx_back_wEta evt 1 = 0 \<and> outQx_for_wEta evt 1 3 = 0)"
proof -
  let ?s = "init_state (sample_entry 23)"
  have q: "passes_quality ?s 15" "passes_quality ?s 20"
    by (simp_all add: init_state_tracks sample_entry_tracks)
  have v: "VELOTRACK_ETA (track_body 15 ?s) 15 = 3" "VELOTRACK_PHI (track_body 15 ?s) 15 = 0"
      "VELOTRACK_ETA (track_body 20 ?s) 20 = - 1"
      "VELOTRACK_PHI (track_body 20 ?s) 20 = 0.2 + pi"
    by (simp_all add: track_body_eta init_state_tracks sample_entry_tracks sample_entry_eta
          sample_entry_phi)
  have a: "(1::nat) < 2" "(3::nat) < 4" "(0::nat) < 2" "(0::nat) < 4" by simp_all
  note f = harmonic_accumulation [OF q(1) a(1) a(2), of "sample_entry 23"]
  note b = harmonic_accumulation [OF q(2) a(3) a(4), of "sample_entry 23"]
  from f b q v show ?thesis
    by (simp add: Let_def forward_slot_def init_state_sums sample_23_emitted)
qed

text \<open>
  Claim C3. An entry that passes the event selection is emitted exactly when, after the
  track loop, the forward counter, the backward counter and the three bin counters are
  all at least five, and the emitted object is the one filled from that state. With
  the bin-2 counter at four the entry is skipped and the output tree is unchanged;
  with the bin-2 counter at five and the other counters at least five the object is
  appended. A skipped entry adds nothing to the tree, and there is no error value: the
  loop body returns the tree as it was.
\<close>

theorem multiplicity_gate:
  assumes "\<not> event_rejected e"
  shows "((\<exists>evt. process_entry e = Some evt) =
           (nPrimaryForTracks (after_tracks e) \<ge> 5 \<and> nPrimaryBackTracks (after_tracks e) \<ge> 5 \<and>
            nPrimaryForTracks_1 (after_tracks e) \<ge> 5 \<and> nPrimaryForTracks_2 (after_tracks e) \<ge> 5 \<and>
            nPrimaryForTracks_3 (after_tracks e) \<ge> 5)) \<and>
         (process_entry e = None \<or> process_entry e = Some (fill_event (after_tracks e))) \<and>
         (nPrimaryForTracks_2 (after_tracks e) = 4 \<longrightarrow>
            process_entry e = None \<and> event_loop [e] out = out) \<and>
         (nPrimaryForTracks_2 (after_tracks e) = 5 \<and>
          nPrimaryForTracks (after_tracks e) \<ge> 5 \<and> nPrimaryBackTracks (after_tracks e) \<ge> 5 \<and>
          nPrimaryForTracks_1 (after_tracks e) \<ge> 5 \<and> nPrimaryForTracks_3 (after_tracks e) \<ge> 5 \<longrightarrow>
            process_entry e = Some (fill_event (after_tracks e)) \<and>
            event_loop [e] out = out @ [fill_event (after_tracks e)]) \<and>
         (process_entry e = None \<longrightarrow> event_loop [e] out = out)"
  using assms
  by (auto simp: process_entry_def Let_def multiplicity_rejected_def)

theorem multiplicity_gate_witness:
  "\<not> event_rejected (sample_entry 19) \<and> \<not> event_rejected (sample_entry 20) \<and>
   nPrimaryForTracks_2 (after_tracks (sample_entry 19)) = 4 \<and>
   process_entry (sample_entry 19) = None \<and>
   event_loop [sample_entry 19] [] = [] \<and>
   nPrimaryForTracks_2 (after_tracks (sample_entry 20)) = 5 \<and>
   process_entry (sample_entry 20) = Some (fill_event (after_tracks (sample_entry 20))) \<and>
   event_loop [sample_entry 20] [] = [fill_event (after_tracks (sample_entry 20))]"
proof -
  have g: "\<not> event_rejected (sample_entry 19)" "\<not> event_rejected (sample_entry 20)"
    by (simp_all add: sample_entry_gate)
  from multiplicity_gate [OF g(1), of "[]"] multiplicity_gate [OF g(2), of "[]"] g
  show ?thesis
    by (simp add: sample_19 sample_20)
qed

text \<open>
  Claim C4. The event selection rejects an entry exactly when the number of primary
  vertices is not one, or fewer than ten backward tracks were counted, or the
  longitudinal position of the first primary vertex lies outside \<open>[-100, 100]\<close>, or
  there are fewer than fifteen VELO tracks. A rejected entry yields no object; any
  other entry goes through the track loop and the multiplicity gate.
\<close>

theorem event_gate:
  "event_rejected e =
     (nPVs e \<noteq> 1 \<or> nBackTracks e < 10 \<or> \<not> (- 100 \<le> PVZ e 0 \<and> PVZ e 0 \<le> 100) \<or>
      nVeloTracks e < 15) \<and>
   (event_rejected e \<longrightarrow> process_entry e = None) \<and>
   (\<not> event_rejected e \<longrightarrow>
      process_entry e =
        (if multiplicity_rejected (track_loop 0 (nVeloTracks e) (init_state e)) then None
         else Some (fill_event (track_loop 0 (nVeloTracks e) (init_state e)))))"
  by (auto simp: event_rejected_def process_entry_def Let_def after_tracks_def)

theorem event_gate_witness:
  "event_rejected (sample_entry 14) \<and> nVeloTracks (sample_entry 14) < 15 \<and>
   process_entry (sample_entry 14) = None \<and>
   event_rejected ((sample_entry 20)\<lparr>nPVs := 2\<rparr>) \<and>
   event_rejected ((sample_entry 20)\<lparr>nBackTracks := 9\<rparr>) \<and>
   event_rejected ((sample_entry 20)\<lparr>PVZ := (\<lambda>k. 100.5)\<rparr>) \<and>
   event_rejected ((sample_entry 20)\<lparr>PVZ := (\<lambda>k. - 101)\<rparr>) \<and>
   \<not> event_rejected ((sample_entry 20)\<lparr>PVZ := (\<lambda>k. 100)\<rparr>) \<and>
   \<not> event_rejected (sample_entry 20) \<and>
   process_entry (sample_entry 20) =
     Some (fill_event (track_loop 0 20 (init_state (sample_entry 20))))"
  using event_gate [of "sample_entry 14"] event_gate [of "sample_entry 20"]
    event_gate [of "(sample_entry 20)\<lparr>nPVs := 2\<rparr>"]
    event_gate [of "(sample_entry 20)\<lparr>nBackTracks := 9\<rparr>"]
    event_gate [of "(sample_entry 20)\<lparr>PVZ := (\<lambda>k. 100.5)\<rparr>"]
    event_gate [of "(sample_entry 20)\<lparr>PVZ := (\<lambda>k. - 101)\<rparr>"]
    event_gate [of "(sample_entry 20)\<lparr>PVZ := (\<lambda>k. 100)\<rparr>"]
    sample_20
  by (simp add: sample_entry_def multiplicity_rejected_def after_tracks_def)

text \<open>
  Claim C5. For a track that passes the quality cut and carries the backward flag, the
  iteration runs the flip first and the counting and accumulation on the flipped
  arrays: the flip negates \<open>VELOTRACK_ETA[i]\<close> and adds \<open>pi\<close> to \<open>VELOTRACK_PHI[i]\<close> with no
  reduction of the angle, and these are the values the iteration leaves behind. A
  track without the flag keeps both arrays as they were, and an iteration never
  touches the slot of another track, so after the whole loop a flagged track that
  passes the cut has been flipped exactly once. A flagged track read as
  \<open>(eta, phi) = (1.0, 0.2)\<close> is handled as \<open>(-1.0, 0.2 + pi)\<close>: it feeds the backward sums
  with that angle and no forward slot.
\<close>

theorem backward_flip_once:
  "(passes_quality s i \<and> VELOTRACK_ISBACKWARD s i = 1 \<longrightarrow>
      accumulate i (count_tracks i (flip_backward i s)) = track_body i s \<and>
      VELOTRACK_ETA (flip_backward i s) i = - VELOTRACK_ETA s i \<and>
      VELOTRACK_PHI (flip_backward i s) i = VELOTRACK_PHI s i + pi \<and>
      VELOTRACK_ETA (track_body i s) i = - VELOTRACK_ETA s i \<and>
      VELOTRACK_PHI (track_body i s) i = VELOTRACK_PHI s i + pi) \<and>
   (VELOTRACK_ISBACKWARD s i \<noteq> 1 \<longrightarrow>
      VELOTRACK_ETA (track_body i s) = VELOTRACK_ETA s \<and>
      VELOTRACK_PHI (track_body i s) = VELOTRACK_PHI s) \<and>
   (j \<noteq> i \<longrightarrow>
      VELOTRACK_ETA (track_body i s) j = VELOTRACK_ETA s j \<and>
      VELOTRACK_PHI (track_body i s) j = VELOTRACK_PHI s j) \<and>
   (k < nat (nVeloTracks e) \<and> passes_quality e k \<and> VELOTRACK_ISBACKWARD e k = 1 \<longrightarrow>
      VELOTRACK_ETA (after_tracks e) k = - VELOTRACK_ETA e k \<and>
      VELOTRACK_PHI (after_tracks e) k = VELOTRACK_PHI e k + pi) \<and>
   (passes_quality s i \<and> VELOTRACK_ISBACKWARD s i = 1 \<and>
    VELOTRACK_ETA s i = 1.0 \<and> VELOTRACK_PHI s i = 0.2 \<longrightarrow>
      VELOTRACK_ETA (track_body i s) i = - 1.0 \<and>
      VELOTRACK_PHI (track_body i s) i = 0.2 + pi \<and>
      Qx_back (track_body i s) 0 = Qx_back s 0 + cos (0.2 + pi) \<and>
      Qy_back (track_body i s) 0 = Qy_back s 0 + sin (0.2 + pi) \<and>
      Qx_for (track_body i s) = Qx_for s \<and> Qy_for (track_body i s) = Qy_for s \<and>
      nPrimaryForTracks_1 (track_body i s) = nPrimaryForTracks_1 s)"
proof (intro conjI impI)
  assume a: "passes_quality s i \<and> VELOTRACK_ISBACKWARD s i = 1"
  then show "accumulate i (count_tracks i (flip_backward i s)) = track_body i s"
    by (simp add: track_body_def passes_quality_def)
  from a show "VELOTRACK_ETA (flip_backward i s) i = - VELOTRACK_ETA s i"
    by (simp add: flip_backward_eta eta_t_def)
  from a show "VELOTRACK_PHI (flip_backward i s) i = VELOTRACK_PHI s i + pi"
    by (simp add: flip_backward_eta phi_t_def)
  from a show "VELOTRACK_ETA (track_body i s) i = - VELOTRACK_ETA s i"
    by (simp add: track_body_eta eta_t_def)
  from a show "VELOTRACK_PHI (track_body i s) i = VELOTRACK_PHI s i + pi"
    by (simp add: track_body_eta phi_t_def)
next
  assume a: "VELOTRACK_ISBACKWARD s i \<noteq> 1"
  then show "VELOTRACK_ETA (track_body i s) = VELOTRACK_ETA s"
    by (intro ext) (simp add: track_body_eta eta_t_def)
  from a show "VELOTRACK_PHI (track_body i s) = VELOTRACK_PHI s"
    by (intro ext) (simp add: track_body_eta phi_t_def)
next
  assume "j \<noteq> i"
  then show "VELOTRACK_ETA (track_body i s) j = VELOTRACK_ETA s j"
    "VELOTRACK_PHI (track_body i s) j = VELOTRACK_PHI s j"
    by (simp_all add: track_body_eta)
next
  assume a: "k < nat (nVeloTracks e) \<and> passes_quality e k \<and> VELOTRACK_ISBACKWARD e k = 1"
  then show "VELOTRACK_ETA (after_tracks e) k = - VELOTRACK_ETA e k"
    by (simp add: arrays_after_tracks eta_t_def)
  from a show "VELOTRACK_PHI (after_tracks e) k = VELOTRACK_PHI e k + pi"
    by (simp add: arrays_after_tracks phi_t_def)
next
  assume a: "passes_quality s i \<and> VELOTRACK_ISBACKWARD s i = 1 \<and>
    VELOTRACK_ETA s i = 1.0 \<and> VELOTRACK_PHI s i = 0.2"
  then have t: "eta_t s i = - 1" "phi_t s i = 0.2 + pi"
    by (simp_all add: eta_t_def phi_t_def)
  from a t show "VELOTRACK_ETA (track_body i s) i = - 1.0"
    by (simp add: track_body_eta)
  from a t show "VELOTRACK_PHI (track_body i s) i = 0.2 + pi"
    by (simp add: track_body_eta)
  from a t show "Qx_back (track_body i s) 0 = Qx_back s 0 + cos (0.2 + pi)"
    by (simp add: track_body_back)
  from a t show "Qy_back (track_body i s) 0 = Qy_back s 0 + sin (0.2 + pi)"
    by (simp add: track_body_back)
  from a t show "Qx_for (track_body i s) = Qx_for s"
    by (intro ext) (simp add: track_body_for forward_slot_def)
  from a t show "Qy_for (track_body i s) = Qy_for s"
    by (intro ext) (simp add: track_body_for forward_slot_def)
  from a t show "nPrimaryForTracks_1 (track_body i s) = nPrimaryForTracks_1 s"
    by (simp add: track_body_counters forward_slot_def)
qed

theorem backward_flip_once_witness:
  "passes_quality (init_state (sample_entry 23)) 20 \<and>
   VELOTRACK_ISBACKWARD (init_state (sample_entry 23)) 20 = 1 \<and>
   VELOTRACK_ETA (init_state (sample_entry 23)) 20 = 1.0 \<and>
   VELOTRACK_PHI (init_state (sample_entry 23)) 20 = 0.2 \<and>
   VELOTRACK_ETA (track_body 20 (init_state (sample_entry 23))) 20 = - 1.0 \<and>
   VELOTRACK_PHI (track_body 20 (init_state (sample_entry 23))) 20 = 0.2 + pi \<and>
   Qx_back (track_body 20 (init_state (sample_entry 23))) 0 = cos (0.2 + pi) \<and>
   Qx_for (track_body 20 (init_state (sample_entry 23))) = (\<lambda>h j. 0) \<and>
   VELOTRACK_ETA (track_body 20 (init_state (sample_entry 23))) 3 = 1 \<and>
   VELOTRACK_ETA (after_tracks (sample_entry 23)) 20 = - 1.0 \<and>
   VELOTRACK_PHI (after_tracks (sample_entry 23)) 20 = 0.2 + pi \<and>
   VELOTRACK_ISBACKWARD (init_state (sample_entry 23)) 3 \<noteq> 1 \<and>
   VELOTRACK_ETA (track_body 3 (init_state (sample_entry 23))) =
     VELOTRACK_ETA (init_state (sample_entry 23))"
proof -
  let ?e = "sample_entry 23" and ?s = "init_state (sample_entry 23)"
  have h: "passes_quality ?s 20" "VELOTRACK_ISBACKWARD ?s 20 = 1" "VELOTRACK_ETA ?s 20 = 1.0"
    "VELOTRACK_PHI ?s 20 = 0.2" "VELOTRACK_ISBACKWARD ?s 3 \<noteq> 1" "VELOTRACK_ETA ?s 3 = 1"
    "(20::nat) < nat (nVeloTracks ?e)" "passes_quality ?e 20" "VELOTRACK_ISBACKWARD ?e 20 = 1"
    "VELOTRACK_ETA ?e 20 = 1.0" "VELOTRACK_PHI ?e 20 = 0.2"
    by (simp_all add: init_state_tracks sample_entry_tracks) (simp_all add: sample_entry_def)
  from backward_flip_once [of ?s 20 3 20 ?e] backward_flip_once [of ?s 3 20 20 ?e] h
  show ?thesis
    by (simp add: init_state_sums) (simp add: init_state_def)
qed

text \<open>
  Claim C9. The bins \<open>(0.5, 2.5]\<close>, \<open>(2.5, 4.0]\<close> and \<open>(4.0, 6.0]\<close> split \<open>(0.5, 6.0]\<close>, so
  after the track loop of any entry the inclusive forward slot of every Q-vector array
  (cosine and sine sums, plain and eta-weighted, for each harmonic index \<open>h\<close>) is the sum
  of the three bin slots, in exact arithmetic; and the three bin counters add up to
  the number of tracks that pass the quality cut and whose eta after the flip lies in
  \<open>(0.5, 6.0]\<close>.
\<close>

theorem forward_union_is_sum_of_bins:
  "Qx_for (after_tracks e) h 3 =
     Qx_for (after_tracks e) h 0 + Qx_for (after_tracks e) h 1 + Qx_for (after_tracks e) h 2 \<and>
   Qy_for (after_tracks e) h 3 =
     Qy_for (after_tracks e) h 0 + Qy_for (after_tracks e) h 1 + Qy_for (after_tracks e) h 2 \<and>
   Qx_for_wEta (after_tracks e) h 3 =
     Qx_for_wEta (after_tracks e) h 0 + Qx_for_wEta (after_tracks e) h 1 +
     Qx_for_wEta (after_tracks e) h 2 \<and>
   Qy_for_wEta (after_tracks e) h 3 =
     Qy_for_wEta (after_tracks e) h 0 + Qy_for_wEta (after_tracks e) h 1 +
     Qy_for_wEta (after_tracks e) h 2 \<and>
   nPrimaryForTracks_1 (after_tracks e) + nPrimaryForTracks_2 (after_tracks e) +
     nPrimaryForTracks_3 (after_tracks e) =
     int (length (filter (\<lambda>i. passes_quality e i \<and> 0.5 < eta_t e i \<and> eta_t e i \<le> 6.0)
                    [0..<nat (nVeloTracks e)]))"
proof -
  have "length (filter (\<lambda>i. passes_quality e i \<and> forward_slot 0 (eta_t e i)) xs) +
        length (filter (\<lambda>i. passes_quality e i \<and> forward_slot 1 (eta_t e i)) xs) +
        length (filter (\<lambda>i. passes_quality e i \<and> forward_slot 2 (eta_t e i)) xs) =
        length (filter (\<lambda>i. passes_quality e i \<and> 0.5 < eta_t e i \<and> eta_t e i \<le> 6.0) xs)" for xs
    by (induction xs) (auto simp: forward_slot_def)
  from this [of "[0..<nat (nVeloTracks e)]"] show ?thesis
    by (simp add: union_sums bin_counts flip: of_nat_add)
qed

text \<open>
  Claim C10. The backward counter that the multiplicity gate reads, and that is
  stored as \<open>out_Qmulti[3]\<close>, counts the tracks that pass the quality cut and carry the
  backward flag, whatever their pseudorapidity after the flip: after the track loop it
  equals the number of such tracks among the first \<open>nVeloTracks\<close>; an entry with fewer
  than five of them is skipped, and an emitted object stores the counter in slot 3. A
  flagged track whose flipped eta is at least -0.5 raises the counter by one and leaves
  all four backward sums as they were. A track that fails the quality cut (significance
  above 1.5) leaves the whole state, hence every counter, unchanged.
\<close>

theorem backward_counter_counts_flagged_tracks:
  "nPrimaryBackTracks (after_tracks e) =
     int (length (filter (\<lambda>k. passes_quality e k \<and> VELOTRACK_ISBACKWARD e k = 1)
                    [0..<nat (nVeloTracks e)])) \<and>
   (nPrimaryBackTracks (after_tracks e) < 5 \<longrightarrow> process_entry e = None) \<and>
   (\<forall>evt. process_entry e = Some evt \<longrightarrow>
      out_Qmulti evt 3 = nPrimaryBackTracks (after_tracks e)) \<and>
   (passes_quality s i \<and> VELOTRACK_ISBACKWARD s i = 1 \<and> eta_t s i \<ge> - 0.5 \<longrightarrow>
      nPrimaryBackTracks (track_body i s) = nPrimaryBackTracks s + 1 \<and>
      Qx_back (track_body i s) = Qx_back s \<and> Qy_back (track_body i s) = Qy_back s \<and>
      Qx_back_wEta (track_body i s) = Qx_back_wEta s \<and>
      Qy_back_wEta (track_body i s) = Qy_back_wEta s) \<and>
   (VELOTRACK_BIPCHI2 s j > 1.5 \<longrightarrow> track_body j s = s)"
proof (intro conjI allI impI)
  show "nPrimaryBackTracks (after_tracks e) =
     int (length (filter (\<lambda>k. passes_quality e k \<and> VELOTRACK_ISBACKWARD e k = 1)
                    [0..<nat (nVeloTracks e)]))"
    by (rule back_count)
next
  assume "nPrimaryBackTracks (after_tracks e) < 5"
  then show "process_entry e = None"
    by (simp add: process_entry_def Let_def multiplicity_rejected_def)
next
  fix evt assume "process_entry e = Some evt"
  then have "evt = fill_event (after_tracks e)" by (rule process_entry_Some)
  then show "out_Qmulti evt 3 = nPrimaryBackTracks (after_tracks e)"
    by (simp add: fill_event_def)
next
  assume a: "passes_quality s i \<and> VELOTRACK_ISBACKWARD s i = 1 \<and> eta_t s i \<ge> - 0.5"
  then show "nPrimaryBackTracks (track_body i s) = nPrimaryBackTracks s + 1"
    by (simp add: track_body_counters)
  from a show "Qx_back (track_body i s) = Qx_back s" by (intro ext) (simp add: track_body_back)
  from a show "Qy_back (track_body i s) = Qy_back s" by (intro ext) (simp add: track_body_back)
  from a show "Qx_back_wEta (track_body i s) = Qx_back_wEta s"
    by (intro ext) (simp add: track_body_back)
  from a show "Qy_back_wEta (track_body i s) = Qy_back_wEta s"
    by (intro ext) (simp add: track_body_back)
next
  assume "VELOTRACK_BIPCHI2 s j > 1.5"
  then show "track_body j s = s" by (simp add: track_body_def)
qed

theorem backward_counter_counts_flagged_tracks_witness:
  "nPrimaryBackTracks (after_tracks (sample_entry 23)) = 7 \<and>
   (\<exists>evt. process_entry (sample_entry 23) = Some evt \<and> out_Qmulti evt 3 = 7) \<and>
   passes_quality (init_state (sample_entry 23)) 21 \<and>
   VELOTRACK_ISBACKWARD (init_state (sample_entry 23)) 21 = 1 \<and>
   eta_t (init_state (sample_entry 23)) 21 = - 0.2 \<and>
   nPrimaryBackTracks (track_body 21 (init_state (sample_entry 23))) = 1 \<and>
   Qx_back (track_body 21 (init_state (sample_entry 23))) = (\<lambda>h. 0) \<and>
   Qy_back (track_body 21 (init_state (sample_entry 23))) = (\<lambda>h. 0) \<and>
   VELOTRACK_BIPCHI2 (init_state (sample_entry 23)) 22 = 2 \<and>
   track_body 22 (init_state (sample_entry 23)) = init_state (sample_entry 23)"
  using backward_counter_counts_flagged_tracks
          [of "sample_entry 23" "init_state (sample_entry 23)" 21 22]
  by (simp add: sample_23 sample_23_emitted init_state_tracks sample_entry_tracks sample_entry_eta)
     (simp add: init_state_def sample_entry_def)

section \<open>The claims about the index and the candidate matcher\<close>

text \<open>
  Claim C6. After the index is built over an event-plane tree, a key is mapped to the
  position of its last occurrence in the tree, so of two entries with the same key the
  later one is found; a key that occurs nowhere in the tree is mapped to nothing. The
  scan writes one duplicate-key warning for each entry whose key occurred at an
  earlier position, and nothing else: the number of warnings plus the number of
  distinct keys is the number of entries. For a tree of two entries with one key the
  lookup gives position 1 and there is exactly one warning.
\<close>

theorem index_last_write_wins:
  "(k < length EPtree \<and>
    (\<forall>j. k < j \<and> j < length EPtree \<longrightarrow> ep_key (EPtree ! j) \<noteq> ep_key (EPtree ! k)) \<longrightarrow>
      epIndexMap (index_loop EPtree 0 init_prep) (ep_key (EPtree ! k)) = Some (int k)) \<and>
   (key \<notin> set (map ep_key EPtree) \<longrightarrow> epIndexMap (index_loop EPtree 0 init_prep) key = None) \<and>
   cerr (index_loop EPtree 0 init_prep) =
     map (\<lambda>k. DuplicateEPKey (ep_RUNNUMBER (EPtree ! k)) (ep_EVENTNUMBER (EPtree ! k)))
       (filter (\<lambda>k. ep_key (EPtree ! k) \<in> set (map ep_key (take k EPtree)))
          [0..<length EPtree]) \<and>
   length (cerr (index_loop EPtree 0 init_prep)) + card (set (map ep_key EPtree)) =
     length EPtree \<and>
   (ep_key a = ep_key b \<longrightarrow>
      epIndexMap (index_loop [a, b] 0 init_prep) (ep_key a) = Some 1 \<and>
      cerr (index_loop [a, b] 0 init_prep) =
        [DuplicateEPKey (ep_RUNNUMBER b) (ep_EVENTNUMBER b)])"
proof (intro conjI impI)
  assume "k < length EPtree \<and>
    (\<forall>j. k < j \<and> j < length EPtree \<longrightarrow> ep_key (EPtree ! j) \<noteq> ep_key (EPtree ! k))"
  then show "epIndexMap (index_loop EPtree 0 init_prep) (ep_key (EPtree ! k)) = Some (int k)"
    using index_prefix(2) [of "length EPtree" EPtree k] by (simp add: index_loop_fold)
next
  assume "key \<notin> set (map ep_key EPtree)"
  then show "epIndexMap (index_loop EPtree 0 init_prep) key = None"
    using index_prefix(1) [of "length EPtree" EPtree key] by (simp add: index_loop_fold)
next
  show "cerr (index_loop EPtree 0 init_prep) =
     map (\<lambda>k. DuplicateEPKey (ep_RUNNUMBER (EPtree ! k)) (ep_EVENTNUMBER (EPtree ! k)))
       (filter (\<lambda>k. ep_key (EPtree ! k) \<in> set (map ep_key (take k EPtree)))
          [0..<length EPtree])"
    using index_prefix(3) [of "length EPtree" EPtree] by (simp add: index_loop_fold)
next
  show "length (cerr (index_loop EPtree 0 init_prep)) + card (set (map ep_key EPtree)) =
     length EPtree"
    using index_prefix(4) [of "length EPtree" EPtree] by (simp add: index_loop_fold)
next
  assume eq: "ep_key a = ep_key b"
  have two: "[0..<length [a, b]] = [0, Suc 0]" by (simp add: upt_rec)
  from eq show "epIndexMap (index_loop [a, b] 0 init_prep) (ep_key a) = Some 1"
    by (simp add: index_loop_fold two index_body_fields)
  from eq show "cerr (index_loop [a, b] 0 init_prep) =
        [DuplicateEPKey (ep_RUNNUMBER b) (ep_EVENTNUMBER b)]"
    by (simp add: index_loop_fold two index_body_fields) (simp add: init_prep_def)
qed

theorem index_last_write_wins_witness:
  "ep_key (sample_ep 1 1 0) = ep_key (sample_ep 1 1 1) \<and>
   sample_ep 1 1 0 \<noteq> sample_ep 1 1 1 \<and>
   epIndexMap (index_loop [sample_ep 1 1 0, sample_ep 1 1 1] 0 init_prep) (1, 1) = Some 1 \<and>
   cerr (index_loop [sample_ep 1 1 0, sample_ep 1 1 1] 0 init_prep) = [DuplicateEPKey 1 1] \<and>
   epIndexMap (index_loop [sample_ep 1 1 0, sample_ep 1 1 1] 0 init_prep) (1, 2) = None"
  using index_last_write_wins
          [of 1 "[sample_ep 1 1 0, sample_ep 1 1 1]" "(1, 2)" "sample_ep 1 1 0" "sample_ep 1 1 1"]
  by (simp add: ep_key_def sample_ep_def)

text \<open>
  Claim C7. One iteration of the candidate loop raises each of the twelve cut counters
  by one exactly when the condition of that cut holds for the candidate, whatever the
  other cuts say, and the flag \<open>fail\<close> ends as the disjunction of the twelve
  conditions. When any cut fails, the iteration counts one failed candidate, leaves
  the unmatched and saved counters, the diagnostics and the output tree as they were,
  and its result does not depend on the content of the index: run against any other
  index it ends in the same state. In particular this holds for a candidate with
  \<open>p_PT < 500\<close>, which raises the counter of the proton-PT cut.
\<close>

theorem cut_counters_independent:
  "snd (apply_cuts c s) = any_cut_fails c \<and>
   cut_nBackTracks (candidate_body c s) =
     cut_nBackTracks s + (if nBackTracks_cand c < 10 then 1 else 0) \<and>
   cut_nVeloTracks (candidate_body c s) =
     cut_nVeloTracks s + (if nVeloTracks_cand c < 15 then 1 else 0) \<and>
   cut_nPVs (candidate_body c s) = cut_nPVs s + (if nPVs_cand c \<noteq> 1 then 1 else 0) \<and>
   cut_PVZ (candidate_body c s) =
     cut_PVZ s + (if PVZ_cand c 0 < - 100 \<or> PVZ_cand c 0 > 100 then 1 else 0) \<and>
   cut_L0_BPVFDCHI2 (candidate_body c s) =
     cut_L0_BPVFDCHI2 s + (if L0_BPVFDCHI2 c < 130 then 1 else 0) \<and>
   cut_L0_BPVDIRA (candidate_body c s) =
     cut_L0_BPVDIRA s + (if L0_BPVDIRA c < double_0_9999 then 1 else 0) \<and>
   cut_p_BPVIPCHI2 (candidate_body c s) =
     cut_p_BPVIPCHI2 s + (if p_BPVIPCHI2 c < 25 then 1 else 0) \<and>
   cut_pi_BPVIPCHI2 (candidate_body c s) =
     cut_pi_BPVIPCHI2 s + (if pi_BPVIPCHI2 c < 25 then 1 else 0) \<and>
   cut_p_PT (candidate_body c s) = cut_p_PT s + (if p_PT c < 500 then 1 else 0) \<and>
   cut_pi_PT (candidate_body c s) = cut_pi_PT s + (if pi_PT c < 200 then 1 else 0) \<and>
   cut_p_GHOSTPROB (candidate_body c s) =
     cut_p_GHOSTPROB s + (if p_GHOSTPROB c > double_0_1 then 1 else 0) \<and>
   cut_pi_GHOSTPROB (candidate_body c s) =
     cut_pi_GHOSTPROB s + (if pi_GHOSTPROB c > double_0_1 then 1 else 0) \<and>
   (any_cut_fails c \<longrightarrow>
      failedCuts (candidate_body c s) = failedCuts s + 1 \<and>
      noMatch (candidate_body c s) = noMatch s \<and> saved (candidate_body c s) = saved s \<and>
      cerr (candidate_body c s) = cerr s \<and> outTree (candidate_body c s) = outTree s \<and>
      (\<forall>m. candidate_body c (s\<lparr>epIndexMap := m\<rparr>) = (candidate_body c s)\<lparr>epIndexMap := m\<rparr>)) \<and>
   (p_PT c < 500 \<longrightarrow>
      any_cut_fails c \<and> cut_p_PT (candidate_body c s) = cut_p_PT s + 1 \<and>
      noMatch (candidate_body c s) = noMatch s \<and>
      (\<forall>m. candidate_body c (s\<lparr>epIndexMap := m\<rparr>) = (candidate_body c s)\<lparr>epIndexMap := m\<rparr>))"
proof -
  have pt: "any_cut_fails c" if "p_PT c < 500"
    using that by (simp add: any_cut_fails_def)
  have failing: "failedCuts (candidate_body c s) = failedCuts s + 1 \<and>
      noMatch (candidate_body c s) = noMatch s \<and> saved (candidate_body c s) = saved s \<and>
      cerr (candidate_body c s) = cerr s \<and> outTree (candidate_body c s) = outTree s \<and>
      (\<forall>m. candidate_body c (s\<lparr>epIndexMap := m\<rparr>) = (candidate_body c s)\<lparr>epIndexMap := m\<rparr>)"
    if "any_cut_fails c"
    using that by (simp add: candidate_body_totals candidate_body_failing)
  from pt failing show ?thesis
    by (simp add: candidate_body_cuts apply_cuts_snd)
qed

theorem cut_counters_independent_witness:
  "cand_key (sample_candidate 42 400) = (274156, 42) \<and>
   p_PT (sample_candidate 42 400) < 500 \<and>
   cut_p_PT (candidate_body (sample_candidate 42 400) init_prep) = 1 \<and>
   cut_pi_PT (candidate_body (sample_candidate 42 400) init_prep) = 0 \<and>
   failedCuts (candidate_body (sample_candidate 42 400) init_prep) = 1 \<and>
   noMatch (candidate_body (sample_candidate 42 400) init_prep) = 0 \<and>
   saved (candidate_body (sample_candidate 42 400) init_prep) = 0 \<and>
   cerr (candidate_body (sample_candidate 42 400) init_prep) = [] \<and>
   candidate_body (sample_candidate 42 400) (init_prep\<lparr>epIndexMap := [(274156, 42) \<mapsto> 7]\<rparr>) =
     (candidate_body (sample_candidate 42 400) init_prep)\<lparr>epIndexMap := [(274156, 42) \<mapsto> 7]\<rparr> \<and>
   \<not> any_cut_fails ((sample_candidate 42 500)\<lparr>p_GHOSTPROB := double_0_1\<rparr>) \<and>
   cut_p_GHOSTPROB
     (candidate_body ((sample_candidate 42 500)\<lparr>p_GHOSTPROB := double_0_1\<rparr>) init_prep) = 0 \<and>
   any_cut_fails ((sample_candidate 42 500)\<lparr>p_GHOSTPROB := 0.2\<rparr>) \<and>
   cut_p_GHOSTPROB
     (candidate_body ((sample_candidate 42 500)\<lparr>p_GHOSTPROB := 0.2\<rparr>) init_prep) = 1"
  using cut_counters_independent [of "sample_candidate 42 400" init_prep]
    cut_counters_independent [of "(sample_candidate 42 500)\<lparr>p_GHOSTPROB := double_0_1\<rparr>" init_prep]
    cut_counters_independent [of "(sample_candidate 42 500)\<lparr>p_GHOSTPROB := 0.2\<rparr>" init_prep]
  by (simp add: sample_candidate_def cand_key_def any_cut_fails_def double_0_1_def
        double_0_9999_def)
     (simp add: init_prep_def)

text \<open>
  Claim C8. Every iteration of the candidate loop raises the total by one and exactly
  one of the failed, unmatched and saved counters by one: the failed counter when a
  cut fails, the unmatched counter when all twelve cuts pass and the key is not in the
  index, the saved counter when they pass and the key is found. So an iteration keeps
  \<open>total = failed + unmatched + saved\<close>, and the equation holds after any number \<open>n\<close> of
  iterations of the loop that starts from the freshly built index, and after the whole
  macro; the four counters then count the candidates seen so far in the four classes
  (as 32-bit words).
\<close>

theorem matcher_totals:
  "totalLambdas (candidate_body c s) = totalLambdas s + 1 \<and>
   ((any_cut_fails c \<and> failedCuts (candidate_body c s) = failedCuts s + 1 \<and>
     noMatch (candidate_body c s) = noMatch s \<and> saved (candidate_body c s) = saved s) \<or>
    (\<not> any_cut_fails c \<and> epIndexMap s (cand_key c) = None \<and>
     failedCuts (candidate_body c s) = failedCuts s \<and>
     noMatch (candidate_body c s) = noMatch s + 1 \<and> saved (candidate_body c s) = saved s) \<or>
    (\<not> any_cut_fails c \<and> epIndexMap s (cand_key c) \<noteq> None \<and>
     failedCuts (candidate_body c s) = failedCuts s \<and>
     noMatch (candidate_body c s) = noMatch s \<and> saved (candidate_body c s) = saved s + 1)) \<and>
   (totalLambdas s = failedCuts s + noMatch s + saved s \<longrightarrow>
      totalLambdas (candidate_body c s) =
        failedCuts (candidate_body c s) + noMatch (candidate_body c s) +
        saved (candidate_body c s)) \<and>
   (let ix = index_loop EPtree 0 init_prep; r = candidate_loop (take n tree) 0 ix in
      totalLambdas r = failedCuts r + noMatch r + saved r \<and>
      totalLambdas r = of_nat (length (take n tree)) \<and>
      failedCuts r = of_nat (length (filter any_cut_fails (take n tree))) \<and>
      noMatch r = of_nat (length (filter (\<lambda>c. \<not> any_cut_fails c \<and>
                                            epIndexMap ix (cand_key c) = None) (take n tree))) \<and>
      saved r = of_nat (length (filter (\<lambda>c. \<not> any_cut_fails c \<and>
                                          epIndexMap ix (cand_key c) \<noteq> None) (take n tree)))) \<and>
   candidate_loop tree 0 s =
     candidate_loop (drop n tree) 0 (candidate_loop (take n tree) 0 s) \<and>
   (let r = FilePrep EPtree tree in
      totalLambdas r = failedCuts r + noMatch r + saved r)"
proof -
  have split3: "length cs = length (filter any_cut_fails cs) +
      length (filter (\<lambda>c. \<not> any_cut_fails c \<and> m (cand_key c) = None) cs) +
      length (filter (\<lambda>c. \<not> any_cut_fails c \<and> m (cand_key c) \<noteq> None) cs)"
    for cs :: "candidate list" and m :: "ep_key \<rightharpoonup> int"
    by (induction cs) auto
  have loop: "totalLambdas r = failedCuts r + noMatch r + saved r \<and>
      totalLambdas r = of_nat (length cs) \<and>
      failedCuts r = of_nat (length (filter any_cut_fails cs)) \<and>
      noMatch r = of_nat (length (filter (\<lambda>c. \<not> any_cut_fails c \<and>
                                            epIndexMap ix (cand_key c) = None) cs)) \<and>
      saved r = of_nat (length (filter (\<lambda>c. \<not> any_cut_fails c \<and>
                                          epIndexMap ix (cand_key c) \<noteq> None) cs))"
    if "ix = index_loop EPtree 0 init_prep" "r = candidate_loop cs 0 ix"
    for ix r cs
  proof -
    from that have t: "totalLambdas r = of_nat (length cs)"
      and f: "failedCuts r = of_nat (length (filter any_cut_fails cs))"
      and u: "noMatch r = of_nat (length (filter (\<lambda>c. \<not> any_cut_fails c \<and>
                                            epIndexMap ix (cand_key c) = None) cs))"
      and v: "saved r = of_nat (length (filter (\<lambda>c. \<not> any_cut_fails c \<and>
                                          epIndexMap ix (cand_key c) \<noteq> None) cs))"
      by (simp_all add: candidate_loop_fold fold_candidate_body_totals index_loop_totals)
    have "(of_nat (length cs) :: 32 word) =
        of_nat (length (filter any_cut_fails cs) +
          length (filter (\<lambda>c. \<not> any_cut_fails c \<and> epIndexMap ix (cand_key c) = None) cs) +
          length (filter (\<lambda>c. \<not> any_cut_fails c \<and> epIndexMap ix (cand_key c) \<noteq> None) cs))"
      using split3 [of cs "epIndexMap ix"] by simp
    then have "totalLambdas r = failedCuts r + noMatch r + saved r"
      unfolding t f u v by (simp only: of_nat_add)
    with t f u v show ?thesis by (intro conjI)
  qed
  have step_total: "totalLambdas (candidate_body c s) = totalLambdas s + 1"
    by (simp add: candidate_body_totals)
  have step_one: "((any_cut_fails c \<and> failedCuts (candidate_body c s) = failedCuts s + 1 \<and>
     noMatch (candidate_body c s) = noMatch s \<and> saved (candidate_body c s) = saved s) \<or>
    (\<not> any_cut_fails c \<and> epIndexMap s (cand_key c) = None \<and>
     failedCuts (candidate_body c s) = failedCuts s \<and>
     noMatch (candidate_body c s) = noMatch s + 1 \<and> saved (candidate_body c s) = saved s) \<or>
    (\<not> any_cut_fails c \<and> epIndexMap s (cand_key c) \<noteq> None \<and>
     failedCuts (candidate_body c s) = failedCuts s \<and>
     noMatch (candidate_body c s) = noMatch s \<and> saved (candidate_body c s) = saved s + 1))"
    by (simp add: candidate_body_totals)
  have step_inv: "(totalLambdas s = failedCuts s + noMatch s + saved s \<longrightarrow>
      totalLambdas (candidate_body c s) =
        failedCuts (candidate_body c s) + noMatch (candidate_body c s) +
        saved (candidate_body c s))"
    by (simp add: candidate_body_totals)
  have prefix: "(let ix = index_loop EPtree 0 init_prep; r = candidate_loop (take n tree) 0 ix in
      totalLambdas r = failedCuts r + noMatch r + saved r \<and>
      totalLambdas r = of_nat (length (take n tree)) \<and>
      failedCuts r = of_nat (length (filter any_cut_fails (take n tree))) \<and>
      noMatch r = of_nat (length (filter (\<lambda>c. \<not> any_cut_fails c \<and>
                                            epIndexMap ix (cand_key c) = None) (take n tree))) \<and>
      saved r = of_nat (length (filter (\<lambda>c. \<not> any_cut_fails c \<and>
                                          epIndexMap ix (cand_key c) \<noteq> None) (take n tree))))"
    unfolding Let_def by (rule loop) (rule refl)+
  have compose: "candidate_loop tree 0 s =
     candidate_loop (drop n tree) 0 (candidate_loop (take n tree) 0 s)"
  proof -
    have "fold candidate_body tree s =
        fold candidate_body (drop n tree) (fold candidate_body (take n tree) s)"
      using fold_append [of candidate_body "take n tree" "drop n tree"] by simp
    then show ?thesis by (simp add: candidate_loop_fold)
  qed
  have whole: "(let r = FilePrep EPtree tree in
      totalLambdas r = failedCuts r + noMatch r + saved r)"
    unfolding Let_def FilePrep_def using loop [OF refl refl] by (rule conjunct1)
  show ?thesis
    by (intro conjI step_total step_one step_inv prefix compose whole)
qed

theorem matcher_totals_witness:
  "any_cut_fails (sample_candidate 42 400) \<and>
   \<not> any_cut_fails (sample_candidate 42 500) \<and>
   \<not> any_cut_fails (sample_candidate 43 500) \<and>
   \<not> any_cut_fails ((sample_candidate 42 500)\<lparr>pi_GHOSTPROB := double_0_1\<rparr>) \<and>
   epIndexMap (index_loop [sample_ep 274156 42 0] 0 init_prep) (274156, 42) = Some 0 \<and>
   epIndexMap (index_loop [sample_ep 274156 42 0] 0 init_prep) (274156, 43) = None \<and>
   totalLambdas (FilePrep [sample_ep 274156 42 0]
      [sample_candidate 42 400, sample_candidate 42 500, sample_candidate 43 500,
       (sample_candidate 42 500)\<lparr>pi_GHOSTPROB := double_0_1\<rparr>]) = 4 \<and>
   failedCuts (FilePrep [sample_ep 274156 42 0]
      [sample_candidate 42 400, sample_candidate 42 500, sample_candidate 43 500,
       (sample_candidate 42 500)\<lparr>pi_GHOSTPROB := double_0_1\<rparr>]) = 1 \<and>
   noMatch (FilePrep [sample_ep 274156 42 0]
      [sample_candidate 42 400, sample_candidate 42 500, sample_candidate 43 500,
       (sample_candidate 42 500)\<lparr>pi_GHOSTPROB := double_0_1\<rparr>]) = 1 \<and>
   saved (FilePrep [sample_ep 274156 42 0]
      [sample_candidate 42 400, sample_candidate 42 500, sample_candidate 43 500,
       (sample_candidate 42 500)\<lparr>pi_GHOSTPROB := double_0_1\<rparr>]) = 2 \<and>
   noMatch (candidate_body (sample_candidate 43 500)
      (index_loop [sample_ep 274156 42 0] 0 init_prep)) = 1 \<and>
   totalLambdas (candidate_body (sample_candidate 43 500)
      (index_loop [sample_ep 274156 42 0] 0 init_prep)) = 1"
  using matcher_totals [of "sample_candidate 43 500" "index_loop [sample_ep 274156 42 0] 0 init_prep"
          "[sample_ep 274156 42 0]" 4
          "[sample_candidate 42 400, sample_candidate 42 500, sample_candidate 43 500,
       (sample_candidate 42 500)\<lparr>pi_GHOSTPROB := double_0_1\<rparr>]"]
  by (simp add: Let_def FilePrep_def sample_candidate_cuts sample_index index_loop_totals
        sample_candidate_boundary)

end
